theory Spec2Isabelle
  imports Complex_Main "HOL-Library.Word"
begin

section \<open>Values shared by the editor and the relay server\<close>

text \<open>
  JavaScript numbers that carry coordinates, sizes and colours are modelled as \<^typ>\<open>real\<close>
  (the idealisation of a double: no NaN, no rounding); array indices and the history
  cursor are \<^typ>\<open>int\<close>; a \<open>Uint8Array\<close> is a list of bytes; a string is a list of
  8-bit characters. A property that may be \<open>undefined\<close> is an \<open>option\<close>.
\<close>

type_synonym bytes = "8 word list"

text \<open>
  A JavaScript object whose keys are page numbers: \<open>Object.keys\<close> enumerates integer keys
  in ascending order, so the object is kept as an association list sorted by key.
  \<open>pageGet\<close> is \<open>obj[page]\<close>, \<open>pageSet\<close> is \<open>{...obj, [page]: v}\<close> (and the in-place
  \<open>obj[page] = v\<close> of the server), \<open>pageKeys\<close> is \<open>Object.keys(obj)\<close>.
\<close>

type_synonym 'a pageObj = "(nat \<times> 'a list) list"

definition pageGet :: "'a pageObj \<Rightarrow> nat \<Rightarrow> 'a list option" where
  "pageGet obj page = map_of obj page"

fun pageSet :: "nat \<Rightarrow> 'a list \<Rightarrow> 'a pageObj \<Rightarrow> 'a pageObj" where
  "pageSet page v [] = [(page, v)]"
| "pageSet page v ((k, w) # obj) =
     (if page = k then (k, v) # obj
      else if page < k then (page, v) # (k, w) # obj
      else (k, w) # pageSet page v obj)"

definition pageKeys :: "'a pageObj \<Rightarrow> nat list" where
  "pageKeys obj = map fst obj"

text \<open>\<open>x || []\<close> on an array that may be undefined (an array, even empty, is truthy).\<close>

definition orEmpty :: "'a list option \<Rightarrow> 'a list" where
  "orEmpty x = (case x of None \<Rightarrow> [] | Some xs \<Rightarrow> xs)"

text \<open>\<open>a || b\<close> on numbers (0 is falsy) and on strings (the empty string is falsy).\<close>

definition numOr :: "real \<Rightarrow> real \<Rightarrow> real" where
  "numOr a b = (if a \<noteq> 0 then a else b)"

definition truthyStr :: "string option \<Rightarrow> bool" where
  "truthyStr s = (case s of None \<Rightarrow> False | Some t \<Rightarrow> t \<noteq> [])"

definition strOr :: "string option \<Rightarrow> string option \<Rightarrow> string option" where
  "strOr a b = (if truthyStr a then a else b)"

text \<open>\<open>arr.findIndex(pred)\<close>: the first index whose element satisfies \<open>pred\<close>, or -1.\<close>

fun findIndexFrom :: "int \<Rightarrow> ('a \<Rightarrow> bool) \<Rightarrow> 'a list \<Rightarrow> int" where
  "findIndexFrom i pred [] = -1"
| "findIndexFrom i pred (x # xs) = (if pred x then i else findIndexFrom (i + 1) pred xs)"

definition findIndex :: "('a \<Rightarrow> bool) \<Rightarrow> 'a list \<Rightarrow> int" where
  "findIndex pred arr = findIndexFrom 0 pred arr"

text \<open>\<open>arr.slice(0, end)\<close>: a negative \<open>end\<close> counts from the end of the array.\<close>

definition slice0 :: "'a list \<Rightarrow> int \<Rightarrow> 'a list" where
  "slice0 arr e =
     (let n = int (length arr);
          k = (if e < 0 then max (n + e) 0 else min e n)
      in take (nat k) arr)"

text \<open>The decimal rendering of a non-negative integer, as a template literal gives it.\<close>

definition digitChar :: "nat \<Rightarrow> char" where
  "digitChar d = ''0123456789'' ! d"

function showNat :: "nat \<Rightarrow> string" where
  "showNat n = (if n < 10 then [digitChar n] else showNat (n div 10) @ [digitChar (n mod 10)])"
  by pat_completeness auto
termination
  by (relation "measure (\<lambda>n. n)") auto

declare showNat.simps [simp del]

datatype error = TypeError | NoPdfSource | FetchFailed | LoadFailed | EmbedFailed
  | ExtractFailed

section \<open>Data model of the editor (PdfEditor.jsx)\<close>

text \<open>
  Boxes and images share their identifier and their screen rectangle (pixels, origin at
  the top left of the page wrapper). The style fields of a box are optional, as the
  code reads them (\<open>box.fontSize || ...\<close>, \<open>box.isBold !== undefined\<close>).
\<close>

record rect =
  ident :: string
  left_px :: real
  top_px :: real
  width_px :: real
  height_px :: real

record box = rect +
  boxText :: string
  fontSize :: "real option"
  color :: "string option"
  isBold :: "bool option"
  locked :: "bool option"

record image = rect +
  imageUrl :: string
  imageBytes :: bytes
  imageType :: string

record rgb01 =
  red :: real
  green :: real
  blue :: real

text \<open>An extracted text item of page 1 (\<open>extractTextItems\<close>), in PDF points.\<close>

record textItem =
  item_str :: string
  item_x :: real
  item_y :: real
  item_fontSize :: real
  item_width :: real
  item_height :: real
  item_fontName :: string
  item_isBold :: bool
  item_isItalic :: bool
  item_color :: "rgb01 option"

record historyEntry =
  entry_bytes :: bytes
  entry_url :: "string option"

text \<open>
  The component's props (\<open>fileUrl\<close>, \<open>docId\<close>) and React state. \<open>fontSizeInput\<close> holds
  \<open>Number(fontSizeInput)\<close>; \<open>console\<close> collects what \<open>console.error\<close> prints.
\<close>

record editor =
  fileUrl :: "string option"
  docId :: "string option"
  scale :: real
  boxes :: "box pageObj"
  images :: "image pageObj"
  pdfBuffer :: "bytes option"
  editedUrl :: "string option"
  pdfTextItems :: "textItem list"
  editBlock :: "(textItem \<times> nat) option"
  boldToggle :: bool
  pageSize :: "real \<times> real"
  docVersion :: nat
  fontSizeInput :: real
  fontColorHex :: string
  history :: "historyEntry list"
  historyIndex :: int
  console :: "string list"

section \<open>The document codec and the network, as the editor uses them\<close>

datatype standardFont = Helvetica | HelveticaBold | HelveticaOblique | HelveticaBoldOblique

datatype pdfImage = PngImage bytes | JpgImage bytes

text \<open>The draw calls of pdf-lib that the editor issues on a page.\<close>

datatype drawOp =
    DrawText string real real real standardFont rgb01
  | DrawImage pdfImage real real real real
  | DrawRectangle real real real real rgb01 real

record pdfPage =
  pageHeight :: real
  content :: "drawOp list"

type_synonym pdfDoc = "pdfPage list"

text \<open>
  What lies outside the component is a parameter: \<open>fetch\<close>, \<open>PDFDocument.load\<close> and
  \<open>save\<close>, the PNG and JPEG decoders (\<open>False\<close>: the decoder throws),
  \<open>font.widthOfTextAtSize\<close>, the pdf.js calls behind \<open>extractTextItems\<close> (\<open>None\<close>: the
  document or the page cannot be read; otherwise the page size, and the text items unless
  reading them throws), the upload and persistence calls of docApi (\<open>None\<close>, \<open>False\<close>:
  the call throws), \<open>Date.now()\<close> and \<open>URL.createObjectURL\<close>.
\<close>

record env =
  SOCKET_URL :: string
  fetch :: "string \<Rightarrow> bytes option"
  load :: "bytes \<Rightarrow> pdfDoc option"
  save :: "pdfDoc \<Rightarrow> bytes"
  pngOk :: "bytes \<Rightarrow> bool"
  jpgOk :: "bytes \<Rightarrow> bool"
  widthOfTextAtSize :: "standardFont \<Rightarrow> string \<Rightarrow> real \<Rightarrow> real"
  pdfjsExtract :: "bytes \<Rightarrow> ((real \<times> real) \<times> textItem list option) option"
  uploadPdfBlob :: "bytes \<Rightarrow> string option"
  saveDoc :: bool
  now :: nat
  createObjectURL :: "bytes \<Rightarrow> string"

section \<open>History stack\<close>

text \<open>
  \<open>extractTextItems(bytes, 1)\<close>: \<open>setPageSize\<close> comes first, \<open>setPdfTextItems\<close> last. A
  failure of pdf.js rejects the promise and keeps what was set before it.
\<close>

definition extractTextItems :: "env \<Rightarrow> bytes \<Rightarrow> editor \<Rightarrow> error option \<times> editor" where
  "extractTextItems e b st =
     (case pdfjsExtract e b of
        None \<Rightarrow> (Some ExtractFailed, st)
      | Some (sz, None) \<Rightarrow> (Some ExtractFailed, st\<lparr>pageSize := sz\<rparr>)
      | Some (sz, Some items) \<Rightarrow> (None, st\<lparr>pageSize := sz, pdfTextItems := items\<rparr>))"

text \<open>
  \<open>pushHistory(bytes, url)\<close>. The updater reads \<open>historyIndex\<close> from the closure of the
  render that created the handler: \<open>hi\<close> is that captured value, \<open>st\<close> the state the
  updater is applied to.
\<close>

definition pushHistory :: "int \<Rightarrow> bytes \<Rightarrow> string option \<Rightarrow> editor \<Rightarrow> editor" where
  "pushHistory hi b u st =
     (let trimmed = slice0 (history st) (hi + 1);
          next = trimmed @ [\<lparr>entry_bytes = b, entry_url = u\<rparr>]
      in st\<lparr>history := next, historyIndex := int (length next) - 1\<rparr>)"

definition canUndo :: "editor \<Rightarrow> bool" where
  "canUndo st = (historyIndex st > 0)"

definition canRedo :: "editor \<Rightarrow> bool" where
  "canRedo st = (historyIndex st \<ge> 0 \<and> historyIndex st < int (length (history st)) - 1)"

text \<open>
  The common body of \<open>handleUndo\<close> and \<open>handleRedo\<close> once the target index is known.
  \<open>history[idx]\<close> out of range is \<open>undefined\<close>, and reading \<open>entry.bytes\<close> then throws after
  \<open>setHistoryIndex(idx)\<close> was issued. The extraction is started without \<open>await\<close>: its
  failure does not reach the handler.
\<close>

definition restoreEntry :: "env \<Rightarrow> int \<Rightarrow> editor \<Rightarrow> error option \<times> editor" where
  "restoreEntry e idx st =
     (let st1 = st\<lparr>historyIndex := idx\<rparr>
      in if idx < 0 \<or> int (length (history st)) \<le> idx then (Some TypeError, st1)
         else
           (let clonedBytes = entry_bytes (history st ! nat idx);
                st2 = st1\<lparr>pdfBuffer := Some clonedBytes,
                          editedUrl := Some (createObjectURL e clonedBytes),
                          docVersion := docVersion st1 + 1\<rparr>
            in (None, snd (extractTextItems e clonedBytes st2))))"

definition handleUndo :: "env \<Rightarrow> editor \<Rightarrow> error option \<times> editor" where
  "handleUndo e st =
     (if \<not> canUndo st then (None, st) else restoreEntry e (historyIndex st - 1) st)"

definition handleRedo :: "env \<Rightarrow> editor \<Rightarrow> error option \<times> editor" where
  "handleRedo e st =
     (if \<not> canRedo st then (None, st) else restoreEntry e (historyIndex st + 1) st)"

text \<open>The history as the component starts with (\<open>useState([])\<close>, \<open>useState(-1)\<close>).\<close>

definition emptyHistory :: "editor \<Rightarrow> bool" where
  "emptyHistory st = (history st = [] \<and> historyIndex st = -1)"

text \<open>The cursor points at an entry, or is -1 on the empty history.\<close>

definition cursorValid :: "editor \<Rightarrow> bool" where
  "cursorValid st = (-1 \<le> historyIndex st \<and> historyIndex st < int (length (history st))
     \<and> (history st = [] \<longrightarrow> historyIndex st = -1))"

text \<open>
  A run of \<open>pushHistory\<close> calls with no undo in between: each call comes with the
  \<open>historyIndex\<close> that the closure of its handler captured.
\<close>

fun pushHistoryCalls :: "(int \<times> bytes \<times> string option) list \<Rightarrow> editor \<Rightarrow> editor" where
  "pushHistoryCalls [] st = st"
| "pushHistoryCalls ((hi, b, u) # calls) st = pushHistoryCalls calls (pushHistory hi b u st)"

text \<open>
  Every call of the run captured the cursor that the call before it left: a render came
  between two calls, and no handler was still running from an older render.
\<close>

fun capturedCurrent :: "(int \<times> bytes \<times> string option) list \<Rightarrow> editor \<Rightarrow> bool" where
  "capturedCurrent [] st = True"
| "capturedCurrent ((hi, b, u) # calls) st =
     (hi = historyIndex st \<and> capturedCurrent calls (pushHistory hi b u st))"

text \<open>The state of a freshly mounted component, from its \<open>useState\<close> defaults.\<close>

definition initialEditor :: "string option \<Rightarrow> string option \<Rightarrow> editor" where
  "initialEditor url doc =
     \<lparr>fileUrl = url, docId = doc, scale = 1.2, boxes = [], images = [], pdfBuffer = None,
      editedUrl = None, pdfTextItems = [], editBlock = None, boldToggle = False,
      pageSize = (595, 842), docVersion = 0, fontSizeInput = 12, fontColorHex = ''#000000'',
      history = [], historyIndex = -1, console = []\<rparr>"

text \<open>An environment without network or codec, for concrete evaluations.\<close>

definition offlineEnv :: env where
  "offlineEnv =
     \<lparr>SOCKET_URL = ''http://localhost:4000'', fetch = (\<lambda>_. None), load = (\<lambda>_. None),
      save = (\<lambda>_. []), pngOk = (\<lambda>_. False), jpgOk = (\<lambda>_. False),
      widthOfTextAtSize = (\<lambda>_ s z. real (length s) * z / 2),
      pdfjsExtract = (\<lambda>_. None), uploadPdfBlob = (\<lambda>_. None), saveDoc = False, now = 0,
      createObjectURL = (\<lambda>_. ''blob:local'')\<rparr>"

section \<open>Geometry: screen pixels and PDF points\<close>

record pdfRect =
  pdfX :: real
  pdfY :: real
  pdfWidth :: real
  pdfHeight :: real

text \<open>
  The conversion that \<open>embedAllContent\<close> applies to a box (\<open>pdfX\<close>, \<open>pdfY\<close>) and to an
  image (all four): the vertical origin moves to the bottom of the page and the anchor
  is the rectangle's bottom edge.
\<close>

definition toPdfSpace :: "'a rect_scheme \<Rightarrow> real \<Rightarrow> real \<Rightarrow> pdfRect" where
  "toPdfSpace r pageHeightPt s =
     \<lparr>pdfX = left_px r / s,
      pdfY = pageHeightPt - (top_px r / s) - (height_px r / s),
      pdfWidth = width_px r / s,
      pdfHeight = height_px r / s\<rparr>"

record overlayRect =
  leftPx :: real
  topPx :: real
  widthPx :: real
  heightPx :: real

text \<open>
  The overlay of an extracted text item (the only place where the component maps PDF
  points to screen pixels): \<open>item.height || item.fontSize\<close> falls back on the font size
  when the height is 0.
\<close>

definition toScreenSpace :: "textItem \<Rightarrow> real \<Rightarrow> real \<Rightarrow> overlayRect" where
  "toScreenSpace item pageHeightPt s =
     \<lparr>leftPx = item_x item * s,
      topPx = (pageHeightPt - item_y item) * s,
      widthPx = item_width item * s,
      heightPx = numOr (item_height item) (item_fontSize item) * s\<rparr>"

text \<open>
  A text item that occupies a PDF rectangle (its font size \<open>f\<close> is free), to feed
  \<open>toScreenSpace\<close> with the result of \<open>toPdfSpace\<close>.
\<close>

definition itemAt :: "pdfRect \<Rightarrow> real \<Rightarrow> textItem" where
  "itemAt p f =
     \<lparr>item_str = [], item_x = pdfX p, item_y = pdfY p, item_fontSize = f,
      item_width = pdfWidth p, item_height = pdfHeight p, item_fontName = ''Helvetica'',
      item_isBold = False, item_isItalic = False, item_color = None\<rparr>"

definition screenOf :: "'a rect_scheme \<Rightarrow> overlayRect" where
  "screenOf r =
     \<lparr>leftPx = left_px r, topPx = top_px r, widthPx = width_px r, heightPx = height_px r\<rparr>"

section \<open>Upload endpoint of the socket server\<close>

text \<open>The character class \<open>[a-zA-Z0-9_.-]\<close> of the filename sanitiser.\<close>

definition allowedChar :: "char \<Rightarrow> bool" where
  "allowedChar c =
     (c \<in> set ''abcdefghijklmnopqrstuvwxyzABCDEFGHIJKLMNOPQRSTUVWXYZ0123456789_.-'')"

definition safeChar :: "char \<Rightarrow> char" where
  "safeChar c = (if allowedChar c then c else CHR ''_'')"

text \<open>\<open>filename\<close> of the disk storage: \<open>ts\<close> is \<open>Date.now()\<close>.\<close>

definition storageFilename :: "nat \<Rightarrow> string \<Rightarrow> string" where
  "storageFilename ts originalname = showNat ts @ ''-'' @ map safeChar originalname"

text \<open>
  \<open>toLowerCase\<close>, character by character: the letters A to Z are lowered; among 8-bit
  characters no other one lowers to a character of \<open>application/pdf\<close>, and they are left
  as they are.
\<close>

definition toLowerChar :: "char \<Rightarrow> char" where
  "toLowerChar c =
     (case map_of (zip ''ABCDEFGHIJKLMNOPQRSTUVWXYZ'' ''abcdefghijklmnopqrstuvwxyz'') c of
        None \<Rightarrow> c
      | Some l \<Rightarrow> l)"

record uploadedFile =
  originalname :: string
  mimetype :: "string option"
  fileSize :: nat

definition fileFilter :: "uploadedFile \<Rightarrow> bool" where
  "fileFilter f =
     (map toLowerChar (case mimetype f of None \<Rightarrow> [] | Some m \<Rightarrow> m) = ''application/pdf'')"

record storedFile =
  destination :: string
  filename :: string
  urlPath :: string

text \<open>
  \<open>POST /api/files/upload\<close>: multer rejects a file that the filter refuses or that is
  larger than 100 MB, and otherwise writes it under \<open>destination\<close> with the generated
  name; the handler answers 400 when no file came.
\<close>

definition uploadEndpoint :: "string \<Rightarrow> nat \<Rightarrow> uploadedFile option \<Rightarrow> string + storedFile" where
  "uploadEndpoint uploadsDir ts req =
     (case req of
        None \<Rightarrow> Inl ''No file''
      | Some f \<Rightarrow>
          if \<not> fileFilter f then Inl ''Only PDF files are allowed''
          else if fileSize f > 100 * 1024 * 1024 then Inl ''File too large''
          else Inr \<lparr>destination = uploadsDir,
                    filename = storageFilename ts (originalname f),
                    urlPath = ''/uploads/'' @ storageFilename ts (originalname f)\<rparr>)"

text \<open>The segments of a path, split at \<open>/\<close> and at the backslash.\<close>

fun pathSegments :: "string \<Rightarrow> string list" where
  "pathSegments [] = [[]]"
| "pathSegments (c # cs) =
     (if c = CHR ''/'' \<or> c = CHR 0x5C then [] # pathSegments cs
      else (case pathSegments cs of [] \<Rightarrow> [[c]] | seg # segs \<Rightarrow> (c # seg) # segs))"

section \<open>Annotation store and sync channel\<close>

text \<open>
  A patch is a partial box: \<open>{ ...b, ...patch }\<close> overrides the fields that the patch
  carries. A patch that is \<open>undefined\<close> spreads to nothing.
\<close>

record boxPatch =
  p_ident :: "string option"
  p_left :: "real option"
  p_top :: "real option"
  p_width :: "real option"
  p_height :: "real option"
  p_text :: "string option"
  p_fontSize :: "real option"
  p_color :: "string option"
  p_isBold :: "bool option"
  p_locked :: "bool option"

definition override :: "'a \<Rightarrow> 'a option \<Rightarrow> 'a" where
  "override old new = (case new of None \<Rightarrow> old | Some v \<Rightarrow> v)"

definition overrideOpt :: "'a option \<Rightarrow> 'a option \<Rightarrow> 'a option" where
  "overrideOpt old new = (case new of None \<Rightarrow> old | Some v \<Rightarrow> Some v)"

definition mergePatch :: "box \<Rightarrow> boxPatch \<Rightarrow> box" where
  "mergePatch b p =
     \<lparr>ident = override (ident b) (p_ident p),
      left_px = override (left_px b) (p_left p),
      top_px = override (top_px b) (p_top p),
      width_px = override (width_px b) (p_width p),
      height_px = override (height_px b) (p_height p),
      boxText = override (boxText b) (p_text p),
      fontSize = overrideOpt (fontSize b) (p_fontSize p),
      color = overrideOpt (color b) (p_color p),
      isBold = overrideOpt (isBold b) (p_isBold p),
      locked = overrideOpt (locked b) (p_locked p)\<rparr>"

definition spreadPatch :: "box \<Rightarrow> boxPatch option \<Rightarrow> box" where
  "spreadPatch b p = (case p of None \<Rightarrow> b | Some q \<Rightarrow> mergePatch b q)"

text \<open>
  The payload of a sync message, once it is there. Every handler destructures the fields
  it needs from it; a field that the sender left out is \<open>None\<close>, and a payload that is
  not an object (a number, a string) has all its fields \<open>None\<close>.
\<close>

record msg =
  m_docId :: "string option"
  m_pageNumber :: "nat option"
  m_boxId :: "string option"
  m_box :: "box option"
  m_patch :: "boxPatch option"
  m_imageId :: "string option"
  m_image :: "image option"

datatype eventName = join | add_box | update_box | delete_box | lock_box | unlock_box
  | add_image | update_image | delete_image

subsection \<open>Client: \<open>updateBox\<close>\<close>

text \<open>The updater that \<open>updateBox\<close> hands to \<open>setBoxes\<close>.\<close>

definition updateBoxes :: "nat \<Rightarrow> string \<Rightarrow> boxPatch option \<Rightarrow> box pageObj \<Rightarrow> box pageObj" where
  "updateBoxes pageNumber boxId patch prev =
     (let arr = orEmpty (pageGet prev pageNumber);
          i = findIndex (\<lambda>b. ident b = boxId) arr
      in if i < 0 then prev
         else pageSet pageNumber (arr[nat i := spreadPatch (arr ! nat i) patch]) prev)"

text \<open>
  The body that \<open>updateBox\<close> throttles: the state update, then the emission on the socket
  when there is one (the socket exists once a \<open>docId\<close> was given).
\<close>

definition updateBox :: "nat \<Rightarrow> string \<Rightarrow> boxPatch option \<Rightarrow> editor \<Rightarrow> editor \<times> (eventName \<times> msg) list" where
  "updateBox pageNumber boxId patch st =
     (st\<lparr>boxes := updateBoxes pageNumber boxId patch (boxes st)\<rparr>,
      if truthyStr (docId st)
      then [(update_box, \<lparr>m_docId = docId st, m_pageNumber = Some pageNumber,
               m_boxId = Some boxId, m_box = None, m_patch = patch, m_imageId = None,
               m_image = None\<rparr>)]
      else [])"

subsection \<open>Server: room cache and handlers\<close>

text \<open>
  The cache entry of a document, \<open>{ boxes, pdfUrl? }\<close>: the server keeps boxes and the
  last URL, nothing else.
\<close>

record roomState =
  rs_boxes :: "box pageObj"
  rs_pdfUrl :: "string option"

type_synonym sid = nat

record server =
  docs :: "string \<rightharpoonup> roomState"
  rooms :: "(sid \<times> string) set"

text \<open>
  What the server sends: the payload of \<open>init_state\<close> is the object literal \<open>{ boxes }\<close>,
  so its \<open>images\<close> property is absent.
\<close>

record initPayload =
  ip_boxes :: "box pageObj"
  ip_images :: "image pageObj option"

datatype outEvent =
    init_state initPayload
  | box_added nat box
  | box_updated nat string "boxPatch option"
  | box_deleted nat string
  | box_locked string
  | box_unlocked string

text \<open>\<open>socket.emit\<close> answers the sender; \<open>socket.to(room).emit\<close> reaches the others in the room.\<close>

datatype target = ToSender sid | ToOthers string sid

type_synonym emission = "target \<times> outEvent"

definition truthyNat :: "nat option \<Rightarrow> bool" where
  "truthyNat n = (case n of None \<Rightarrow> False | Some k \<Rightarrow> k \<noteq> 0)"

text \<open>\<open>docs.get(docId) || { boxes: {} }\<close>\<close>

definition stateOrNew :: "server \<Rightarrow> string \<Rightarrow> roomState" where
  "stateOrNew srv d =
     (case docs srv d of None \<Rightarrow> \<lparr>rs_boxes = [], rs_pdfUrl = None\<rparr> | Some state \<Rightarrow> state)"

definition onJoin :: "sid \<Rightarrow> msg \<Rightarrow> server \<Rightarrow> server \<times> emission list" where
  "onJoin sock m srv =
     (if \<not> truthyStr (m_docId m) then (srv, [])
      else
        (let d = the (m_docId m);
             srv1 = srv\<lparr>rooms := insert (sock, d) (rooms srv)\<rparr>;
             srv2 = (if docs srv1 d = None
                     then srv1\<lparr>docs := (docs srv1)(d \<mapsto> \<lparr>rs_boxes = [], rs_pdfUrl = None\<rparr>)\<rparr>
                     else srv1)
         in (srv2, [(ToSender sock,
                     init_state \<lparr>ip_boxes = rs_boxes (stateOrNew srv2 d), ip_images = None\<rparr>)])))"

definition onAddBox :: "sid \<Rightarrow> msg \<Rightarrow> server \<Rightarrow> server \<times> emission list" where
  "onAddBox sock m srv =
     (if \<not> truthyStr (m_docId m) \<or> \<not> truthyNat (m_pageNumber m) \<or> m_box m = None
      then (srv, [])
      else
        (let d = the (m_docId m); pageNumber = the (m_pageNumber m); b = the (m_box m);
             state = stateOrNew srv d;
             arr = orEmpty (pageGet (rs_boxes state) pageNumber);
             state1 = state\<lparr>rs_boxes := pageSet pageNumber (arr @ [b]) (rs_boxes state)\<rparr>
         in (srv\<lparr>docs := (docs srv)(d \<mapsto> state1)\<rparr>,
             [(ToOthers d sock, box_added pageNumber b)])))"

definition onUpdateBox :: "sid \<Rightarrow> msg \<Rightarrow> server \<Rightarrow> server \<times> emission list" where
  "onUpdateBox sock m srv =
     (if \<not> truthyStr (m_docId m) \<or> \<not> truthyNat (m_pageNumber m) \<or> \<not> truthyStr (m_boxId m)
      then (srv, [])
      else
        (let d = the (m_docId m); pageNumber = the (m_pageNumber m); boxId = the (m_boxId m);
             state = stateOrNew srv d;
             arr = orEmpty (pageGet (rs_boxes state) pageNumber);
             i = findIndex (\<lambda>b. ident b = boxId) arr
         in if i < 0 then (srv, [])
            else
              (let arr1 = arr[nat i := spreadPatch (arr ! nat i) (m_patch m)];
                   state1 = state\<lparr>rs_boxes := pageSet pageNumber arr1 (rs_boxes state)\<rparr>
               in (srv\<lparr>docs := (docs srv)(d \<mapsto> state1)\<rparr>,
                   [(ToOthers d sock, box_updated pageNumber boxId (m_patch m))]))))"

definition onDeleteBox :: "sid \<Rightarrow> msg \<Rightarrow> server \<Rightarrow> server \<times> emission list" where
  "onDeleteBox sock m srv =
     (if \<not> truthyStr (m_docId m) \<or> \<not> truthyNat (m_pageNumber m) \<or> \<not> truthyStr (m_boxId m)
      then (srv, [])
      else
        (let d = the (m_docId m); pageNumber = the (m_pageNumber m); boxId = the (m_boxId m);
             state = stateOrNew srv d;
             remaining = filter (\<lambda>b. ident b \<noteq> boxId)
                           (orEmpty (pageGet (rs_boxes state) pageNumber));
             state1 = state\<lparr>rs_boxes := pageSet pageNumber remaining (rs_boxes state)\<rparr>
         in (srv\<lparr>docs := (docs srv)(d \<mapsto> state1)\<rparr>,
             [(ToOthers d sock, box_deleted pageNumber boxId)])))"

definition onLockBox :: "sid \<Rightarrow> msg \<Rightarrow> server \<Rightarrow> server \<times> emission list" where
  "onLockBox sock m srv =
     (if \<not> truthyStr (m_docId m) \<or> \<not> truthyStr (m_boxId m) then (srv, [])
      else (srv, [(ToOthers (the (m_docId m)) sock, box_locked (the (m_boxId m)))]))"

definition onUnlockBox :: "sid \<Rightarrow> msg \<Rightarrow> server \<Rightarrow> server \<times> emission list" where
  "onUnlockBox sock m srv =
     (if \<not> truthyStr (m_docId m) \<or> \<not> truthyStr (m_boxId m) then (srv, [])
      else (srv, [(ToOthers (the (m_docId m)) sock, box_unlocked (the (m_boxId m)))]))"

text \<open>
  The listeners registered on a connection, applied to the first argument that the
  event came with. Each listener destructures that argument in its parameter list
  (\<open>({ docId, pageNumber, boxId }) => ...\<close>): when the event came without a payload, or
  with \<open>null\<close> (\<open>None\<close> here), the destructuring throws a \<open>TypeError\<close> before the guard of
  the handler is reached, and nothing in the server catches it. Any other payload is
  read field by field, the \<open>on...\<close> functions above being the bodies of the listeners.
  No listener is registered for the image events: such a message reaches no handler,
  whatever it carries.
\<close>

fun onMessage :: "eventName \<Rightarrow> sid \<Rightarrow> msg option \<Rightarrow> server \<Rightarrow> error + (server \<times> emission list)" where
  "onMessage add_image sock payload srv = Inr (srv, [])"
| "onMessage update_image sock payload srv = Inr (srv, [])"
| "onMessage delete_image sock payload srv = Inr (srv, [])"
| "onMessage ev sock None srv = Inl TypeError"
| "onMessage join sock (Some m) srv = Inr (onJoin sock m srv)"
| "onMessage add_box sock (Some m) srv = Inr (onAddBox sock m srv)"
| "onMessage update_box sock (Some m) srv = Inr (onUpdateBox sock m srv)"
| "onMessage delete_box sock (Some m) srv = Inr (onDeleteBox sock m srv)"
| "onMessage lock_box sock (Some m) srv = Inr (onLockBox sock m srv)"
| "onMessage unlock_box sock (Some m) srv = Inr (onUnlockBox sock m srv)"

text \<open>
  \<open>POST /doc/:docId\<close>: the body may carry \<open>boxes\<close>, \<open>images\<close> and \<open>pdfUrl\<close> (the editor's
  \<open>saveDoc\<close> sends all three); the handler keeps \<open>boxes\<close> and \<open>pdfUrl\<close>.
\<close>

record docPayload =
  dp_boxes :: "box pageObj option"
  dp_images :: "image pageObj option"
  dp_pdfUrl :: "string option"

definition postDoc :: "string \<Rightarrow> docPayload \<Rightarrow> server \<Rightarrow> server" where
  "postDoc d payload srv =
     (let prev = stateOrNew srv d;
          next = \<lparr>rs_boxes = (case dp_boxes payload of Some b \<Rightarrow> b | None \<Rightarrow> rs_boxes prev),
                  rs_pdfUrl = (case dp_pdfUrl payload of Some u \<Rightarrow> Some u | None \<Rightarrow> rs_pdfUrl prev)\<rparr>
      in srv\<lparr>docs := (docs srv)(d \<mapsto> next)\<rparr>)"

text \<open>
  The fields that the wire protocol requires of each event; \<open>missingRequired\<close> holds when
  the payload lacks one of them.
\<close>

fun missingRequired :: "eventName \<Rightarrow> msg \<Rightarrow> bool" where
  "missingRequired join m = (m_docId m = None)"
| "missingRequired add_box m = (m_docId m = None \<or> m_pageNumber m = None \<or> m_box m = None)"
| "missingRequired update_box m = (m_docId m = None \<or> m_pageNumber m = None \<or> m_boxId m = None)"
| "missingRequired delete_box m = (m_docId m = None \<or> m_pageNumber m = None \<or> m_boxId m = None)"
| "missingRequired lock_box m = (m_docId m = None \<or> m_boxId m = None)"
| "missingRequired unlock_box m = (m_docId m = None \<or> m_boxId m = None)"
| "missingRequired add_image m = (m_docId m = None \<or> m_pageNumber m = None \<or> m_image m = None)"
| "missingRequired update_image m =
     (m_docId m = None \<or> m_pageNumber m = None \<or> m_imageId m = None)"
| "missingRequired delete_image m =
     (m_docId m = None \<or> m_pageNumber m = None \<or> m_imageId m = None)"

definition emptyServer :: server where
  "emptyServer = \<lparr>docs = Map.empty, rooms = {}\<rparr>"

section \<open>Recomposition pipeline\<close>

text \<open>\<open>hexToRgb01\<close>: \<open>#RRGGBB\<close> (the \<open>#\<close> optional, any case) to components in 0..1.\<close>

definition hexVal :: "char \<Rightarrow> nat option" where
  "hexVal c =
     (let n = (of_char c :: nat)
      in if 48 \<le> n \<and> n \<le> 57 then Some (n - 48)
         else if 97 \<le> n \<and> n \<le> 102 then Some (n - 87)
         else if 65 \<le> n \<and> n \<le> 70 then Some (n - 55)
         else None)"

definition hexPair :: "char \<Rightarrow> char \<Rightarrow> real" where
  "hexPair a b = real (16 * the (hexVal a) + the (hexVal b)) / 255"

definition hexToRgb01 :: "string \<Rightarrow> rgb01" where
  "hexToRgb01 hex =
     (let h = (if hex = [] then ''#000000'' else hex);
          d = (case h of c # cs \<Rightarrow> (if c = CHR ''#'' then cs else h) | [] \<Rightarrow> h)
      in case d of
           [a, b, c, d', e, f] \<Rightarrow>
             (if list_all (\<lambda>x. hexVal x \<noteq> None) [a, b, c, d', e, f]
              then \<lparr>red = hexPair a b, green = hexPair c d', blue = hexPair e f\<rparr>
              else \<lparr>red = 0, green = 0, blue = 0\<rparr>)
         | _ \<Rightarrow> \<lparr>red = 0, green = 0, blue = 0\<rparr>)"

text \<open>White space that \<open>trim()\<close> removes, among 8-bit characters.\<close>

definition isJsSpace :: "char \<Rightarrow> bool" where
  "isJsSpace c = ((of_char c :: nat) \<in> {9, 10, 11, 12, 13, 32, 160})"

text \<open>The boxes that the text loop passes over: empty, blank, or still the placeholder.\<close>

definition skippedBox :: "box \<Rightarrow> bool" where
  "skippedBox b =
     (boxText b = [] \<or> list_all isJsSpace (boxText b) \<or> boxText b = ''Type...'')"

definition boxFontSize :: "editor \<Rightarrow> box \<Rightarrow> real" where
  "boxFontSize st b =
     (case fontSize b of
        None \<Rightarrow> numOr (fontSizeInput st) 12
      | Some f \<Rightarrow> numOr f (numOr (fontSizeInput st) 12))"

definition boxColor :: "editor \<Rightarrow> box \<Rightarrow> string" where
  "boxColor st b =
     (case color b of
        None \<Rightarrow> fontColorHex st
      | Some c \<Rightarrow> if c \<noteq> [] then c else fontColorHex st)"

definition boxIsBold :: "editor \<Rightarrow> box \<Rightarrow> bool" where
  "boxIsBold st b = (case isBold b of None \<Rightarrow> boldToggle st | Some v \<Rightarrow> v)"

text \<open>The \<open>page.drawText\<close> call for a box on a page of the given height.\<close>

definition boxDrawOp :: "editor \<Rightarrow> real \<Rightarrow> box \<Rightarrow> drawOp" where
  "boxDrawOp st h b =
     (let p = toPdfSpace b h (scale st)
      in DrawText (boxText b) (pdfX p) (pdfY p + boxFontSize st b) (boxFontSize st b)
           (if boxIsBold st b then HelveticaBold else Helvetica)
           (hexToRgb01 (boxColor st b)))"

text \<open>A draw call appends to the content of the page it is issued on.\<close>

definition drawOnPage :: "nat \<Rightarrow> drawOp \<Rightarrow> pdfDoc \<Rightarrow> pdfDoc" where
  "drawOnPage i op doc = doc[i := (doc ! i)\<lparr>content := content (doc ! i) @ [op]\<rparr>]"

fun embedBoxesOnPage :: "editor \<Rightarrow> nat \<Rightarrow> box list \<Rightarrow> pdfDoc \<Rightarrow> pdfDoc" where
  "embedBoxesOnPage st i [] doc = doc"
| "embedBoxesOnPage st i (b # bs) doc =
     (if skippedBox b then embedBoxesOnPage st i bs doc
      else embedBoxesOnPage st i bs (drawOnPage i (boxDrawOp st (pageHeight (doc ! i)) b) doc))"

text \<open>
  The loop over \<open>Object.keys(boxesToEmbed)\<close>: \<open>pageIndex = parseInt(pageNum) - 1\<close>, and a
  page outside the document is passed over.
\<close>

fun embedBoxPages :: "editor \<Rightarrow> box pageObj \<Rightarrow> nat list \<Rightarrow> pdfDoc \<Rightarrow> pdfDoc" where
  "embedBoxPages st obj [] doc = doc"
| "embedBoxPages st obj (pageNum # rest) doc =
     (let pageIndex = int pageNum - 1
      in if 0 \<le> pageIndex \<and> pageIndex < int (length doc)
         then embedBoxPages st obj rest
                (embedBoxesOnPage st (nat pageIndex) (orEmpty (pageGet obj pageNum)) doc)
         else embedBoxPages st obj rest doc)"

definition embedPng :: "env \<Rightarrow> bytes \<Rightarrow> pdfImage option" where
  "embedPng e b = (if pngOk e b then Some (PngImage b) else None)"

definition embedJpg :: "env \<Rightarrow> bytes \<Rightarrow> pdfImage option" where
  "embedJpg e b = (if jpgOk e b then Some (JpgImage b) else None)"

text \<open>
  The inner \<open>try\<close>/\<open>catch\<close> of the image loop: the decoder is chosen by the declared
  type; when it throws, the \<open>catch\<close> calls \<open>embedPng\<close> once more, and \<open>None\<close> is that second
  call throwing out of the \<open>catch\<close>.
\<close>

definition embedImage :: "env \<Rightarrow> image \<Rightarrow> pdfImage option" where
  "embedImage e img =
     (let first =
        (if imageType img = ''image/png'' then embedPng e (imageBytes img)
         else if imageType img = ''image/jpeg'' \<or> imageType img = ''image/jpg''
           then embedJpg e (imageBytes img)
         else embedPng e (imageBytes img))
      in case first of Some pdfImg \<Rightarrow> Some pdfImg | None \<Rightarrow> embedPng e (imageBytes img))"

definition imageDrawOp :: "editor \<Rightarrow> real \<Rightarrow> image \<Rightarrow> pdfImage \<Rightarrow> drawOp" where
  "imageDrawOp st h img pdfImg =
     (let p = toPdfSpace img h (scale st)
      in DrawImage pdfImg (max 0 (pdfX p)) (max 0 (pdfY p)) (pdfWidth p) (pdfHeight p))"

fun embedImagesOnPage :: "env \<Rightarrow> editor \<Rightarrow> nat \<Rightarrow> image list \<Rightarrow> pdfDoc \<Rightarrow> error + pdfDoc" where
  "embedImagesOnPage e st i [] doc = Inr doc"
| "embedImagesOnPage e st i (img # imgs) doc =
     (case embedImage e img of
        None \<Rightarrow> Inl EmbedFailed
      | Some pdfImg \<Rightarrow>
          embedImagesOnPage e st i imgs
            (drawOnPage i (imageDrawOp st (pageHeight (doc ! i)) img pdfImg) doc))"

fun embedImagePages :: "env \<Rightarrow> editor \<Rightarrow> image pageObj \<Rightarrow> nat list \<Rightarrow> pdfDoc \<Rightarrow> error + pdfDoc" where
  "embedImagePages e st obj [] doc = Inr doc"
| "embedImagePages e st obj (pageNum # rest) doc =
     (let pageIndex = int pageNum - 1
      in if 0 \<le> pageIndex \<and> pageIndex < int (length doc)
         then (case embedImagesOnPage e st (nat pageIndex) (orEmpty (pageGet obj pageNum)) doc of
                 Inl err \<Rightarrow> Inl err
               | Inr doc1 \<Rightarrow> embedImagePages e st obj rest doc1)
         else embedImagePages e st obj rest doc)"

text \<open>The draw phase of \<open>embedAllContent\<close>: every box, then every image.\<close>

definition drawAllContent :: "env \<Rightarrow> editor \<Rightarrow> box pageObj \<Rightarrow> image pageObj \<Rightarrow> pdfDoc \<Rightarrow> error + pdfDoc" where
  "drawAllContent e st boxesToEmbed imagesToEmbed doc =
     embedImagePages e st imagesToEmbed (pageKeys imagesToEmbed)
       (embedBoxPages st boxesToEmbed (pageKeys boxesToEmbed) doc)"

text \<open>
  The block that follows every \<open>pdfDoc.save()\<close>: upload, adopt the new bytes and URL, push
  the history, persist when a \<open>docId\<close> is there; when the upload or the persistence
  throws, the \<open>catch\<close> adopts a local object URL instead and pushes again. \<open>hi\<close> is the
  \<open>historyIndex\<close> that the handler's closure holds.
\<close>

definition adoptLocal :: "env \<Rightarrow> int \<Rightarrow> bytes \<Rightarrow> editor \<Rightarrow> editor" where
  "adoptLocal e hi newBytes st =
     (let u = createObjectURL e newBytes;
          st1 = pushHistory hi newBytes (Some u)
                  (st\<lparr>editedUrl := Some u, pdfBuffer := Some newBytes\<rparr>)
      in st1\<lparr>docVersion := docVersion st1 + 1\<rparr>)"

definition publishBytes :: "env \<Rightarrow> int \<Rightarrow> bytes \<Rightarrow> editor \<Rightarrow> editor" where
  "publishBytes e hi newBytes st =
     (case uploadPdfBlob e newBytes of
        None \<Rightarrow> adoptLocal e hi newBytes st
      | Some u \<Rightarrow>
          (let absolute = SOCKET_URL e @ u @ ''?v='' @ showNat (now e);
               st1 = pushHistory hi newBytes (Some absolute)
                       (st\<lparr>editedUrl := Some absolute, pdfBuffer := Some newBytes\<rparr>)
           in if truthyStr (docId st) \<and> \<not> saveDoc e then adoptLocal e hi newBytes st1
              else st1\<lparr>docVersion := docVersion st1 + 1\<rparr>))"

definition logError :: "string \<Rightarrow> editor \<Rightarrow> editor" where
  "logError line st = st\<lparr>console := console st @ [line]\<rparr>"

text \<open>
  \<open>embedAllContent\<close>: anything thrown inside is caught by the outer \<open>catch\<close>, which prints
  and returns.
\<close>

definition embedAllContent :: "env \<Rightarrow> editor \<Rightarrow> pdfDoc \<Rightarrow> box pageObj \<Rightarrow> image pageObj \<Rightarrow> editor" where
  "embedAllContent e st pdfDoc boxesToEmbed imagesToEmbed =
     (case drawAllContent e st boxesToEmbed imagesToEmbed pdfDoc of
        Inl err \<Rightarrow> logError ''Failed to embed all content:'' st
      | Inr doc1 \<Rightarrow>
          (let newBytes = save e doc1;
               st1 = publishBytes e (historyIndex st) newBytes st
           in case extractTextItems e newBytes st1 of
                (Some err, st2) \<Rightarrow> logError ''Failed to embed all content:'' st2
              | (None, st2) \<Rightarrow> st2))"

text \<open>\<open>fetch(src)\<close>, \<open>arrayBuffer()\<close> and \<open>PDFDocument.load\<close> in a row.\<close>

definition fetchAndLoad :: "env \<Rightarrow> string \<Rightarrow> error + pdfDoc" where
  "fetchAndLoad e src =
     (case fetch e src of
        None \<Rightarrow> Inl FetchFailed
      | Some b \<Rightarrow> (case load e b of None \<Rightarrow> Inl LoadFailed | Some doc \<Rightarrow> Inr doc))"

text \<open>
  \<open>rebuildPdfWithAllContent(boxesToUse, imagesToUse)\<close>: the source is \<open>fileUrl\<close>, and
  \<open>editedUrl\<close> only when there is no \<open>fileUrl\<close>.
\<close>

definition rebuildPdfWithAllContent ::
  "env \<Rightarrow> box pageObj option \<Rightarrow> image pageObj option \<Rightarrow> editor \<Rightarrow> editor" where
  "rebuildPdfWithAllContent e boxesToUse imagesToUse st =
     (let boxesToEmbed = (case boxesToUse of None \<Rightarrow> boxes st | Some b \<Rightarrow> b);
          imagesToEmbed = (case imagesToUse of None \<Rightarrow> images st | Some i \<Rightarrow> i)
      in if \<not> truthyStr (fileUrl st)
         then (if \<not> truthyStr (editedUrl st) then st
               else (case fetchAndLoad e (the (editedUrl st)) of
                       Inl err \<Rightarrow> logError ''Failed to rebuild PDF with all content:'' st
                     | Inr pdfDoc \<Rightarrow> embedAllContent e st pdfDoc boxesToEmbed imagesToEmbed))
         else (case fetchAndLoad e (the (fileUrl st)) of
                 Inl err \<Rightarrow> logError ''Failed to rebuild PDF with all content:'' st
               | Inr pdfDoc \<Rightarrow> embedAllContent e st pdfDoc boxesToEmbed imagesToEmbed))"

section \<open>Inline replacement of an extracted text block\<close>

text \<open>
  \<open>ensurePdfBytes\<close>: the buffer in memory when it starts with \<open>%PDF\<close> and is longer than
  6 bytes, otherwise the bytes behind \<open>editedUrl || fileUrl\<close>, which become the buffer.
\<close>

definition ensurePdfBytes :: "env \<Rightarrow> editor \<Rightarrow> error + (bytes \<times> editor)" where
  "ensurePdfBytes e st =
     (case pdfBuffer st of
        Some buf \<Rightarrow>
          if length buf > 6 \<and> take 4 buf = [0x25, 0x50, 0x44, 0x46] then Inr (buf, st)
          else
            (let src = strOr (editedUrl st) (fileUrl st)
             in if \<not> truthyStr src then Inl NoPdfSource
                else (case fetch e (the src) of
                        None \<Rightarrow> Inl FetchFailed
                      | Some b \<Rightarrow> Inr (b, st\<lparr>pdfBuffer := Some b\<rparr>)))
      | None \<Rightarrow>
          (let src = strOr (editedUrl st) (fileUrl st)
           in if \<not> truthyStr src then Inl NoPdfSource
              else (case fetch e (the src) of
                      None \<Rightarrow> Inl FetchFailed
                    | Some b \<Rightarrow> Inr (b, st\<lparr>pdfBuffer := Some b\<rparr>))))"

definition itemFont :: "textItem \<Rightarrow> standardFont" where
  "itemFont item =
     (if item_isBold item \<and> item_isItalic item then HelveticaBoldOblique
      else if item_isBold item then HelveticaBold
      else if item_isItalic item then HelveticaOblique
      else Helvetica)"

text \<open>\<open>normalizeColor\<close> on a number, and the clamp to 0..1 that follows it.\<close>

definition normalizeColor :: "real \<Rightarrow> real" where
  "normalizeColor val = (if val > 1 then val / 255 else val)"

definition clamp01 :: "real \<Rightarrow> real" where
  "clamp01 v = max 0 (min 1 v)"

definition itemTextColor :: "textItem \<Rightarrow> rgb01" where
  "itemTextColor item =
     (let originalColor =
            (case item_color item of None \<Rightarrow> \<lparr>red = 0, green = 0, blue = 0\<rparr> | Some c \<Rightarrow> c)
      in \<lparr>red = clamp01 (normalizeColor (red originalColor)),
          green = clamp01 (normalizeColor (green originalColor)),
          blue = clamp01 (normalizeColor (blue originalColor))\<rparr>)"

text \<open>The cover rectangle that \<open>page.drawRectangle\<close> paints over the old glyphs.\<close>

definition coverRectangle :: "env \<Rightarrow> textItem \<Rightarrow> string \<Rightarrow> drawOp" where
  "coverRectangle e item newStr =
     (let font = itemFont item;
          fontSizeToUse = item_fontSize item;
          oldTextWidth = widthOfTextAtSize e font (item_str item) fontSizeToUse;
          newTextWidth = widthOfTextAtSize e font newStr fontSizeToUse;
          textWidth = max oldTextWidth newTextWidth + 2;
          actualHeight = numOr (item_height item) (fontSizeToUse * 0.7);
          baselineY = item_y item;
          coverY = baselineY - (actualHeight * 0.2);
          coverHeight = actualHeight * 1.1
      in DrawRectangle (item_x item - 1) coverY textWidth coverHeight
           \<lparr>red = 1, green = 1, blue = 1\<rparr> 1.0)"

text \<open>The \<open>page.drawText\<close> call that writes the replacement.\<close>

definition replacementText :: "textItem \<Rightarrow> string \<Rightarrow> drawOp" where
  "replacementText item newStr =
     DrawText newStr (item_x item) (item_y item) (item_fontSize item) (itemFont item)
       (itemTextColor item)"

text \<open>
  \<open>handleSaveTextEditInline(newStr)\<close>. Nothing catches inside: a failure rejects the
  handler's promise, and the state keeps what was set before it. \<open>getPages()[0]\<close> of a
  document without pages is \<open>undefined\<close>, and the first draw call on it throws.
\<close>

definition handleSaveTextEditInline :: "env \<Rightarrow> string \<Rightarrow> editor \<Rightarrow> error option \<times> editor" where
  "handleSaveTextEditInline e newStr st =
     (case editBlock st of
        None \<Rightarrow> (None, st)
      | Some (item, idx) \<Rightarrow>
          (case ensurePdfBytes e st of
             Inl err \<Rightarrow> (Some err, st)
           | Inr (b, st1) \<Rightarrow>
               (case load e b of
                  None \<Rightarrow> (Some LoadFailed, st1)
                | Some pdfDoc \<Rightarrow>
                    if pdfDoc = [] then (Some TypeError, st1)
                    else
                      (let doc1 = drawOnPage 0 (coverRectangle e item newStr) pdfDoc;
                           doc2 = drawOnPage 0 (replacementText item newStr) doc1;
                           newBytes = save e doc2;
                           st2 = publishBytes e (historyIndex st) newBytes st1;
                           st3 = st2\<lparr>editBlock := None\<rparr>
                       in extractTextItems e newBytes st3))))"

text \<open>
  \<open>normalizeColorValue\<close> of the extraction, which every component of an extracted colour
  has passed through, and the range it leaves a colour in.
\<close>

definition normalizeColorValue :: "real \<Rightarrow> real" where
  "normalizeColorValue val = max 0 (min 1 val)"

definition extractedColor :: "rgb01 \<Rightarrow> bool" where
  "extractedColor c =
     (0 \<le> red c \<and> red c \<le> 1 \<and> 0 \<le> green c \<and> green c \<le> 1 \<and> 0 \<le> blue c \<and> blue c \<le> 1)"

text \<open>
  A codec over a toy byte format, for concrete evaluations: after the \<open>%PDF\<close> header each
  byte is a page, \<open>0xA4\<close> an A4 page (842 points tall) and any other a Letter page (792);
  a saved document lists the number of draw calls of each page.
\<close>

definition sampleLoad :: "bytes \<Rightarrow> pdfDoc option" where
  "sampleLoad b =
     (if take 4 b = [0x25, 0x50, 0x44, 0x46]
      then Some (map (\<lambda>w. \<lparr>pageHeight = (if w = 0xA4 then 842 else 792), content = []\<rparr>)
                  (drop 4 b))
      else None)"

definition sampleSave :: "pdfDoc \<Rightarrow> bytes" where
  "sampleSave doc =
     [0x25, 0x50, 0x44, 0x46] @ map (\<lambda>p. of_nat (length (content p))) doc"

definition sampleEnv :: env where
  "sampleEnv =
     \<lparr>SOCKET_URL = ''http://localhost:4000'',
      fetch = (\<lambda>u. if u = ''/uploads/a.pdf'' then Some [0x25, 0x50, 0x44, 0x46, 0xA4] else None),
      load = sampleLoad, save = sampleSave,
      pngOk = (\<lambda>b. take 1 b = [0x89]), jpgOk = (\<lambda>b. take 1 b = [0xFF]),
      widthOfTextAtSize = (\<lambda>_ s z. real (length s) * z / 2),
      pdfjsExtract = (\<lambda>_. Some ((595, 842), Some [])),
      uploadPdfBlob = (\<lambda>_. Some ''/uploads/1-edited.pdf''), saveDoc = True, now = 1,
      createObjectURL = (\<lambda>_. ''blob:local'')\<rparr>"

section \<open>Concrete annotations for the scenarios\<close>

text \<open>The box of the place-and-recompose scenario; it carries no colour and no bold flag.\<close>

definition helloBox :: box where
  "helloBox =
     \<lparr>ident = ''b1'', left_px = 50, top_px = 100, width_px = 180, height_px = 20,
      boxText = ''Hello'', fontSize = Some 12, color = None, isBold = None, locked = None\<rparr>"

text \<open>An image declared as GIF whose bytes are a GIF header, not a PNG.\<close>

definition gifImage :: image where
  "gifImage =
     \<lparr>ident = ''i1'', left_px = 10, top_px = 10, width_px = 40, height_px = 30,
      imageUrl = ''blob:gif'', imageBytes = [0x47, 0x49, 0x46, 0x38], imageType = ''image/gif''\<rparr>"

definition a4Page :: pdfPage where
  "a4Page = \<lparr>pageHeight = 842, content = []\<rparr>"

definition joinMsg :: "string \<Rightarrow> msg" where
  "joinMsg d =
     \<lparr>m_docId = Some d, m_pageNumber = None, m_boxId = None, m_box = None, m_patch = None,
      m_imageId = None, m_image = None\<rparr>"

definition movePatch :: boxPatch where
  "movePatch =
     \<lparr>p_ident = None, p_left = Some 60, p_top = Some 110, p_width = None, p_height = None,
      p_text = None, p_fontSize = None, p_color = None, p_isBold = None, p_locked = None\<rparr>"

definition updateMsg :: "string \<Rightarrow> nat \<Rightarrow> string option \<Rightarrow> msg" where
  "updateMsg d page b =
     \<lparr>m_docId = Some d, m_pageNumber = Some page, m_boxId = b, m_box = None,
      m_patch = Some movePatch, m_imageId = None, m_image = None\<rparr>"

definition roomWithHello :: server where
  "roomWithHello =
     \<lparr>docs = [''d1'' \<mapsto> \<lparr>rs_boxes = [(1, [helloBox])], rs_pdfUrl = None\<rparr>], rooms = {(7, ''d1'')}\<rparr>"

text \<open>Two states agree on what the draw phase reads from the component.\<close>

definition sameControls :: "editor \<Rightarrow> editor \<Rightarrow> bool" where
  "sameControls st st' =
     (scale st = scale st' \<and> fontSizeInput st = fontSizeInput st'
      \<and> fontColorHex st = fontColorHex st' \<and> boldToggle st = boldToggle st')"

text \<open>Two environments share the document codec.\<close>

definition sameCodec :: "env \<Rightarrow> env \<Rightarrow> bool" where
  "sameCodec e e' =
     (load e = load e' \<and> save e = save e' \<and> pngOk e = pngOk e' \<and> jpgOk e = jpgOk e')"

text \<open>What a recomposition leaves alone: the props, the annotations and the controls.\<close>

definition keepsInputs :: "editor \<Rightarrow> editor \<Rightarrow> bool" where
  "keepsInputs st st' =
     (fileUrl st' = fileUrl st \<and> docId st' = docId st \<and> boxes st' = boxes st
      \<and> images st' = images st \<and> sameControls st st')"

definition jpegDeclared :: "image \<Rightarrow> bool" where
  "jpegDeclared img = (imageType img = ''image/jpeg'' \<or> imageType img = ''image/jpg'')"

text \<open>The editor of the scenarios: scale 1, the Hello box on page 1.\<close>

definition helloEditor :: editor where
  "helloEditor =
     (initialEditor (Some ''/uploads/a.pdf'') None)\<lparr>scale := 1, boxes := [(1, [helloBox])]\<rparr>"

text \<open>An image declared as JPEG whose bytes start as a PNG does.\<close>

definition mislabelledPng :: image where
  "mislabelledPng =
     \<lparr>ident = ''i2'', left_px = 10, top_px = 10, width_px = 40, height_px = 30,
      imageUrl = ''blob:png'', imageBytes = [0x89, 0x50, 0x4E, 0x47], imageType = ''image/jpeg''\<rparr>"

text \<open>The editor with other values in the font size, colour and bold controls.\<close>

definition withControls :: "real \<Rightarrow> string \<Rightarrow> bool \<Rightarrow> editor \<Rightarrow> editor" where
  "withControls fs fc bt st = st\<lparr>fontSizeInput := fs, fontColorHex := fc, boldToggle := bt\<rparr>"

text \<open>An extracted bold text block, and an editor that is editing it.\<close>

definition totalItem :: textItem where
  "totalItem =
     \<lparr>item_str = ''Total'', item_x = 72, item_y = 700, item_fontSize = 10, item_width = 25,
      item_height = 8, item_fontName = ''Helvetica-Bold'', item_isBold = True,
      item_isItalic = False, item_color = Some \<lparr>red = 0.2, green = 0.4, blue = 0.6\<rparr>\<rparr>"

definition inlineEditor :: editor where
  "inlineEditor =
     helloEditor\<lparr>editBlock := Some (totalItem, 0),
                 pdfBuffer := Some [0x25, 0x50, 0x44, 0x46, 0xA4, 0, 0]\<rparr>"

section \<open>Verified properties: history stack\<close>

lemma pushHistory_at:
  "- 1 \<le> hi \<Longrightarrow> hi < int (length (history st)) \<Longrightarrow>
     history (pushHistory hi b u st)
       = take (nat (hi + 1)) (history st) @ [\<lparr>entry_bytes = b, entry_url = u\<rparr>]
     \<and> historyIndex (pushHistory hi b u st) = hi + 1"
  by (auto simp: pushHistory_def slice0_def Let_def min_def)

lemma pushHistory_current:
  "cursorValid st \<Longrightarrow>
     cursorValid (pushHistory (historyIndex st) b u st)
     \<and> historyIndex (pushHistory (historyIndex st) b u st) = historyIndex st + 1
     \<and> historyIndex (pushHistory (historyIndex st) b u st)
         = int (length (history (pushHistory (historyIndex st) b u st))) - 1"
  by (auto simp: pushHistory_def slice0_def cursorValid_def Let_def min_def)

lemma pushHistoryCalls_index:
  "cursorValid st \<Longrightarrow> capturedCurrent calls st \<Longrightarrow>
     historyIndex (pushHistoryCalls calls st) = historyIndex st + int (length calls)
     \<and> cursorValid (pushHistoryCalls calls st)
     \<and> (calls \<noteq> [] \<longrightarrow>
          historyIndex (pushHistoryCalls calls st)
            = int (length (history (pushHistoryCalls calls st))) - 1)"
proof (induction calls arbitrary: st)
  case Nil
  then show ?case by simp
next
  case (Cons c calls)
  obtain hi b u where c: "c = (hi, b, u)" by (cases c)
  from Cons.prems(2) have hi: "hi = historyIndex st"
    and rest: "capturedCurrent calls (pushHistory hi b u st)"
    by (auto simp: c)
  note cur = pushHistory_current[OF Cons.prems(1), of b u]
  have v: "cursorValid (pushHistory hi b u st)" using cur hi by simp
  from Cons.IH[OF v rest] cur hi show ?case
    by (cases calls) (simp_all add: c)
qed

lemma restore_ok: "0 \<le> idx \<Longrightarrow> idx < int (length (history st)) \<Longrightarrow>
  fst (restoreEntry e idx st) = None \<and> historyIndex (snd (restoreEntry e idx st)) = idx
  \<and> history (snd (restoreEntry e idx st)) = history st
  \<and> pdfBuffer (snd (restoreEntry e idx st)) = Some (entry_bytes (history st ! nat idx))"
  by (auto simp: restoreEntry_def Let_def extractTextItems_def split: option.splits prod.splits)

text \<open>
  Claim C4, as amended. Starting from the empty history, \<open>N\<close> calls of \<open>pushHistory\<close> with
  no undo in between, each made from a closure that captured the cursor the call before
  it left, leave the cursor at \<open>N - 1\<close> with redo unavailable (a redo then changes
  nothing); a call of \<open>pushHistory\<close> keeps the entries up to the cursor index that its
  closure captured, drops the ones after it and appends the new entry, which the cursor
  then points at; undo at the first entry and redo at the last entry change nothing; and
  after one undo, a redo followed by an undo brings back exactly the bytes stored in the
  entry before the cursor.
\<close>

theorem history_stack_contract:
  "(emptyHistory st0 \<and> capturedCurrent calls st0 \<longrightarrow>
      historyIndex (pushHistoryCalls calls st0) = int (length calls) - 1
      \<and> \<not> canRedo (pushHistoryCalls calls st0)
      \<and> handleRedo e (pushHistoryCalls calls st0) = (None, pushHistoryCalls calls st0))
   \<and> (- 1 \<le> hi \<and> hi < int (length (history st)) \<longrightarrow>
      history (pushHistory hi b u st) =
        take (nat (hi + 1)) (history st) @ [\<lparr>entry_bytes = b, entry_url = u\<rparr>]
      \<and> historyIndex (pushHistory hi b u st) = hi + 1)
   \<and> (historyIndex st \<le> 0 \<longrightarrow> handleUndo e st = (None, st))
   \<and> (historyIndex st = int (length (history st)) - 1 \<longrightarrow> handleRedo e st = (None, st))
   \<and> (cursorValid st \<and> canUndo st \<longrightarrow>
      (let s1 = snd (handleUndo e st);
           s2 = snd (handleRedo e s1);
           s3 = snd (handleUndo e s2)
       in fst (handleUndo e st) = None \<and> fst (handleRedo e s1) = None
          \<and> fst (handleUndo e s2) = None
          \<and> historyIndex s2 = historyIndex st
          \<and> pdfBuffer s2 = Some (entry_bytes (history st ! nat (historyIndex st)))
          \<and> historyIndex s3 = historyIndex st - 1
          \<and> pdfBuffer s3 = Some (entry_bytes (history st ! nat (historyIndex st - 1)))
          \<and> pdfBuffer s3 = pdfBuffer s1))"
proof -
  have A: "emptyHistory st0 \<and> capturedCurrent calls st0 \<longrightarrow>
      historyIndex (pushHistoryCalls calls st0) = int (length calls) - 1
      \<and> \<not> canRedo (pushHistoryCalls calls st0)
      \<and> handleRedo e (pushHistoryCalls calls st0) = (None, pushHistoryCalls calls st0)"
  proof
    assume a: "emptyHistory st0 \<and> capturedCurrent calls st0"
    then have em: "emptyHistory st0" and cc: "capturedCurrent calls st0" by simp_all
    from em have v: "cursorValid st0" by (simp add: emptyHistory_def cursorValid_def)
    have i: "historyIndex (pushHistoryCalls calls st0) = int (length calls) - 1"
      using pushHistoryCalls_index[OF v cc] em by (simp add: emptyHistory_def)
    have r: "\<not> canRedo (pushHistoryCalls calls st0)"
    proof (cases calls)
      case Nil
      then show ?thesis using em by (simp add: canRedo_def emptyHistory_def)
    next
      case (Cons c cs)
      then show ?thesis using pushHistoryCalls_index[OF v cc] by (simp add: canRedo_def)
    qed
    from i r show "historyIndex (pushHistoryCalls calls st0) = int (length calls) - 1
      \<and> \<not> canRedo (pushHistoryCalls calls st0)
      \<and> handleRedo e (pushHistoryCalls calls st0) = (None, pushHistoryCalls calls st0)"
      by (simp add: handleRedo_def)
  qed
  have B: "- 1 \<le> hi \<and> hi < int (length (history st)) \<longrightarrow>
      history (pushHistory hi b u st) =
        take (nat (hi + 1)) (history st) @ [\<lparr>entry_bytes = b, entry_url = u\<rparr>]
      \<and> historyIndex (pushHistory hi b u st) = hi + 1"
    using pushHistory_at by blast
  have C: "historyIndex st \<le> 0 \<longrightarrow> handleUndo e st = (None, st)"
    by (simp add: handleUndo_def canUndo_def)
  have D: "historyIndex st = int (length (history st)) - 1 \<longrightarrow> handleRedo e st = (None, st)"
    by (simp add: handleRedo_def canRedo_def)
  have E: "cursorValid st \<and> canUndo st \<longrightarrow>
      (let s1 = snd (handleUndo e st);
           s2 = snd (handleRedo e s1);
           s3 = snd (handleUndo e s2)
       in fst (handleUndo e st) = None \<and> fst (handleRedo e s1) = None
          \<and> fst (handleUndo e s2) = None
          \<and> historyIndex s2 = historyIndex st
          \<and> pdfBuffer s2 = Some (entry_bytes (history st ! nat (historyIndex st)))
          \<and> historyIndex s3 = historyIndex st - 1
          \<and> pdfBuffer s3 = Some (entry_bytes (history st ! nat (historyIndex st - 1)))
          \<and> pdfBuffer s3 = pdfBuffer s1)"
  proof
    assume h: "cursorValid st \<and> canUndo st"
    define i where "i = historyIndex st"
    from h have i0: "0 < i" and iN: "i < int (length (history st))"
      by (simp_all add: i_def canUndo_def cursorValid_def)
    define s1 where "s1 = snd (restoreEntry e (i - 1) st)"
    have u1: "handleUndo e st = restoreEntry e (i - 1) st"
      using h by (simp add: handleUndo_def i_def)
    have r1: "fst (restoreEntry e (i - 1) st) = None" "historyIndex s1 = i - 1"
      "history s1 = history st" "pdfBuffer s1 = Some (entry_bytes (history st ! nat (i - 1)))"
      using restore_ok[of "i - 1" st e] i0 iN by (simp_all add: s1_def)
    define s2 where "s2 = snd (restoreEntry e i s1)"
    have u2: "handleRedo e s1 = restoreEntry e i s1"
      using r1 i0 iN by (simp add: handleRedo_def canRedo_def)
    have r2: "fst (restoreEntry e i s1) = None" "historyIndex s2 = i"
      "history s2 = history st" "pdfBuffer s2 = Some (entry_bytes (history st ! nat i))"
      using restore_ok[of i s1 e] i0 iN r1 by (simp_all add: s2_def)
    define s3 where "s3 = snd (restoreEntry e (i - 1) s2)"
    have u3: "handleUndo e s2 = restoreEntry e (i - 1) s2"
      using r2 i0 by (simp add: handleUndo_def canUndo_def)
    have r3: "fst (restoreEntry e (i - 1) s2) = None" "historyIndex s3 = i - 1"
      "pdfBuffer s3 = Some (entry_bytes (history st ! nat (i - 1)))"
      using restore_ok[of "i - 1" s2 e] i0 iN r2 by (simp_all add: s3_def)
    show "(let s1 = snd (handleUndo e st);
           s2 = snd (handleRedo e s1);
           s3 = snd (handleUndo e s2)
       in fst (handleUndo e st) = None \<and> fst (handleRedo e s1) = None
          \<and> fst (handleUndo e s2) = None
          \<and> historyIndex s2 = historyIndex st
          \<and> pdfBuffer s2 = Some (entry_bytes (history st ! nat (historyIndex st)))
          \<and> historyIndex s3 = historyIndex st - 1
          \<and> pdfBuffer s3 = Some (entry_bytes (history st ! nat (historyIndex st - 1)))
          \<and> pdfBuffer s3 = pdfBuffer s1)"
      unfolding Let_def u1 s1_def[symmetric] u2 s2_def[symmetric] u3 s3_def[symmetric]
      using r1 r2 r3 by (simp add: i_def)
  qed
  from A B C D E show ?thesis by blast
qed

lemma two_pushes:
  "history (pushHistoryCalls [(- 1, [1], None), (0, [2], Some ''blob:2'')]
              (initialEditor (Some ''/uploads/a.pdf'') None))
     = [\<lparr>entry_bytes = [1], entry_url = None\<rparr>, \<lparr>entry_bytes = [2], entry_url = Some ''blob:2''\<rparr>]"
  "historyIndex (pushHistoryCalls [(- 1, [1], None), (0, [2], Some ''blob:2'')]
              (initialEditor (Some ''/uploads/a.pdf'') None)) = 1"
  by (simp_all add: pushHistory_def slice0_def initialEditor_def)

lemma one_push:
  "history (pushHistoryCalls [(- 1, [1], None)] (initialEditor (Some ''/uploads/a.pdf'') None))
     = [\<lparr>entry_bytes = [1], entry_url = None\<rparr>]"
  "historyIndex (pushHistoryCalls [(- 1, [1], None)]
     (initialEditor (Some ''/uploads/a.pdf'') None)) = 0"
  by (simp_all add: pushHistory_def slice0_def initialEditor_def)

theorem history_stack_contract_witness:
  "emptyHistory (initialEditor (Some ''/uploads/a.pdf'') None)
   \<and> capturedCurrent [(- 1, [1], None), (0, [2], Some ''blob:2'')]
        (initialEditor (Some ''/uploads/a.pdf'') None)
   \<and> historyIndex (pushHistoryCalls [(- 1, [1], None), (0, [2], Some ''blob:2'')]
        (initialEditor (Some ''/uploads/a.pdf'') None)) = 1
   \<and> cursorValid (pushHistoryCalls [(- 1, [1], None), (0, [2], Some ''blob:2'')]
        (initialEditor (Some ''/uploads/a.pdf'') None))
   \<and> canUndo (pushHistoryCalls [(- 1, [1], None), (0, [2], Some ''blob:2'')]
        (initialEditor (Some ''/uploads/a.pdf'') None))
   \<and> history (pushHistory 1 [3] None
        (pushHistoryCalls [(- 1, [1], None), (0, [2], Some ''blob:2'')]
          (initialEditor (Some ''/uploads/a.pdf'') None)))
      = [\<lparr>entry_bytes = [1], entry_url = None\<rparr>,
         \<lparr>entry_bytes = [2], entry_url = Some ''blob:2''\<rparr>,
         \<lparr>entry_bytes = [3], entry_url = None\<rparr>]
   \<and> pdfBuffer (snd (handleUndo offlineEnv (snd (handleRedo offlineEnv (snd (handleUndo offlineEnv
        (pushHistoryCalls [(- 1, [1], None), (0, [2], Some ''blob:2'')]
          (initialEditor (Some ''/uploads/a.pdf'') None))))))))
      = Some [1]
   \<and> historyIndex (pushHistoryCalls [(- 1, [1], None)]
        (initialEditor (Some ''/uploads/a.pdf'') None)) \<le> 0
   \<and> historyIndex (pushHistoryCalls [(- 1, [1], None)]
        (initialEditor (Some ''/uploads/a.pdf'') None))
      = int (length (history (pushHistoryCalls [(- 1, [1], None)]
          (initialEditor (Some ''/uploads/a.pdf'') None)))) - 1
   \<and> handleUndo offlineEnv (pushHistoryCalls [(- 1, [1], None)]
        (initialEditor (Some ''/uploads/a.pdf'') None))
      = (None, pushHistoryCalls [(- 1, [1], None)] (initialEditor (Some ''/uploads/a.pdf'') None))"
proof -
  let ?st0 = "initialEditor (Some ''/uploads/a.pdf'') None"
  let ?calls = "[(- 1, [1], None), (0, [2], Some ''blob:2'')] :: (int \<times> bytes \<times> string option) list"
  let ?one = "[(- 1, [1], None)] :: (int \<times> bytes \<times> string option) list"
  let ?s2 = "pushHistoryCalls ?calls ?st0"
  let ?s1 = "pushHistoryCalls ?one ?st0"
  have em: "emptyHistory ?st0" by (simp add: emptyHistory_def initialEditor_def)
  have cc: "capturedCurrent ?calls ?st0"
    by (simp add: pushHistory_def slice0_def initialEditor_def)
  have cv: "cursorValid ?s2" "canUndo ?s2"
    by (simp_all add: cursorValid_def canUndo_def two_pushes del: pushHistoryCalls.simps)
  have rg: "- 1 \<le> (1::int) \<and> 1 < int (length (history ?s2))"
    by (simp add: two_pushes del: pushHistoryCalls.simps)
  note T2 = history_stack_contract [of ?st0 ?calls offlineEnv 1 ?s2 "[3]" None]
  note T1 = history_stack_contract [of ?st0 ?calls offlineEnv 0 ?s1 "[3]" None]
  from T2 em cc have i2: "historyIndex ?s2 = int (length ?calls) - 1" by blast
  then have i2': "historyIndex ?s2 = 1" by (simp del: pushHistoryCalls.simps)
  from T2 rg have "history (pushHistory 1 [3] None ?s2)
      = take (nat (1 + 1)) (history ?s2) @ [\<lparr>entry_bytes = [3], entry_url = None\<rparr>]"
    by blast
  then have p2: "history (pushHistory 1 [3] None ?s2)
      = [\<lparr>entry_bytes = [1], entry_url = None\<rparr>,
         \<lparr>entry_bytes = [2], entry_url = Some ''blob:2''\<rparr>,
         \<lparr>entry_bytes = [3], entry_url = None\<rparr>]"
    by (simp add: two_pushes del: pushHistoryCalls.simps)
  from T2 cv have "(let s1 = snd (handleUndo offlineEnv ?s2);
           s2 = snd (handleRedo offlineEnv s1);
           s3 = snd (handleUndo offlineEnv s2)
       in fst (handleUndo offlineEnv ?s2) = None \<and> fst (handleRedo offlineEnv s1) = None
          \<and> fst (handleUndo offlineEnv s2) = None
          \<and> historyIndex s2 = historyIndex ?s2
          \<and> pdfBuffer s2 = Some (entry_bytes (history ?s2 ! nat (historyIndex ?s2)))
          \<and> historyIndex s3 = historyIndex ?s2 - 1
          \<and> pdfBuffer s3 = Some (entry_bytes (history ?s2 ! nat (historyIndex ?s2 - 1)))
          \<and> pdfBuffer s3 = pdfBuffer s1)"
    by blast
  then have p3: "pdfBuffer (snd (handleUndo offlineEnv (snd (handleRedo offlineEnv
        (snd (handleUndo offlineEnv ?s2)))))) = Some [1]"
    by (simp add: Let_def two_pushes del: pushHistoryCalls.simps)
  have l0: "historyIndex ?s1 \<le> 0" by (simp add: one_push del: pushHistoryCalls.simps)
  have l1: "historyIndex ?s1 = int (length (history ?s1)) - 1"
    by (simp add: one_push del: pushHistoryCalls.simps)
  from T1 l0 have p4: "handleUndo offlineEnv ?s1 = (None, ?s1)" by blast
  from em cc i2' cv p2 p3 l0 l1 p4 show ?thesis by blast
qed

text \<open>
  The contract as the claim states it fails when two calls share a closure: from the
  empty history two such calls leave one entry and the cursor at 0, not 1; a call whose
  closure holds an older cursor drops the current entry as well; and the block after
  \<open>pdfDoc.save()\<close> makes two calls from one closure when the upload succeeds and the
  persistence throws.
\<close>

theorem history_stack_contract_counterexample:
  "historyIndex (pushHistoryCalls [(- 1, [1], None), (- 1, [2], None)]
       (initialEditor (Some ''/uploads/a.pdf'') None)) = 0
   \<and> history (pushHistoryCalls [(- 1, [1], None), (- 1, [2], None)]
       (initialEditor (Some ''/uploads/a.pdf'') None))
      = [\<lparr>entry_bytes = [2], entry_url = None\<rparr>]
   \<and> historyIndex (pushHistoryCalls [(- 1, [1], None), (- 1, [2], None)]
       (initialEditor (Some ''/uploads/a.pdf'') None))
      \<noteq> int (length [(- 1 :: int, [1 :: 8 word], None :: string option), (- 1, [2], None)]) - 1
   \<and> history (pushHistory 0 [3] None
        (pushHistoryCalls [(- 1, [1], None), (0, [2], Some ''blob:2'')]
          (initialEditor (Some ''/uploads/a.pdf'') None)))
      = [\<lparr>entry_bytes = [1], entry_url = None\<rparr>, \<lparr>entry_bytes = [3], entry_url = None\<rparr>]
   \<and> history (publishBytes (sampleEnv\<lparr>saveDoc := False\<rparr>) (- 1) [9]
        (initialEditor (Some ''/uploads/a.pdf'') (Some ''d1'')))
      = [\<lparr>entry_bytes = [9], entry_url = Some ''blob:local''\<rparr>]"
  by (simp add: pushHistory_def slice0_def initialEditor_def publishBytes_def adoptLocal_def
      sampleEnv_def truthyStr_def Let_def)

section \<open>Verified properties: upload endpoint\<close>

lemma not_allowed_sep: "\<not> allowedChar CHR ''/''" "\<not> allowedChar CHR 0x5C"
  by (simp_all add: allowedChar_def)

lemma lt10_cases:
  "d < 10 \<Longrightarrow> d = 0 \<or> d = 1 \<or> d = 2 \<or> d = 3 \<or> d = 4 \<or> d = 5 \<or> d = 6 \<or> d = 7 \<or> d = 8
     \<or> d = (9::nat)"
  by arith

lemma digitChar_allowed: "d < 10 \<Longrightarrow> allowedChar (digitChar d)"
  by (drule lt10_cases) (elim disjE, simp_all add: digitChar_def allowedChar_def)

lemma safeChar_allowed: "allowedChar (safeChar c)"
proof (cases "allowedChar c")
  case True
  then show ?thesis by (simp add: safeChar_def)
next
  case False
  have "allowedChar CHR ''_''" by (simp add: allowedChar_def)
  with False show ?thesis by (simp add: safeChar_def)
qed

lemma dash_allowed: "allowedChar CHR ''-''"
  by (simp add: allowedChar_def)


lemma showNat_allowed: "\<forall>c \<in> set (showNat n). allowedChar c"
proof (induction n rule: showNat.induct)
  case (1 n)
  show ?case
  proof (cases "n < 10")
    case True
    then show ?thesis by (subst showNat.simps) (simp add: digitChar_allowed)
  next
    case False
    then show ?thesis using 1 by (subst showNat.simps) (simp add: digitChar_allowed)
  qed
qed

lemma showNat_nonempty: "showNat n \<noteq> []"
  by (subst showNat.simps) simp

lemma digitChar_not_dot: "d < 10 \<Longrightarrow> digitChar d \<noteq> CHR ''.''"
  by (drule lt10_cases) (elim disjE, simp_all add: digitChar_def)

lemma showNat_hd: "hd (showNat n) \<noteq> CHR ''.''"
proof (induction n rule: showNat.induct)
  case (1 n)
  show ?case
  proof (cases "n < 10")
    case True
    then show ?thesis by (subst showNat.simps) (simp add: digitChar_not_dot)
  next
    case False
    then show ?thesis using 1 showNat_nonempty[of "n div 10"] by (subst showNat.simps) simp
  qed
qed

lemma storageFilename_allowed: "\<forall>c \<in> set (storageFilename ts name). allowedChar c"
  using showNat_allowed[of ts] safeChar_allowed dash_allowed
  by (auto simp: storageFilename_def)

lemma pathSegments_single:
  "CHR ''/'' \<notin> set s \<Longrightarrow> CHR 0x5C \<notin> set s \<Longrightarrow> pathSegments s = [s]"
  by (induction s) auto

lemma storageFilename_not_dots:
  "storageFilename ts name \<noteq> [] \<and> storageFilename ts name \<noteq> ''.'' \<and> storageFilename ts name \<noteq> ''..''"
proof -
  have h: "hd (storageFilename ts name) = hd (showNat ts)"
    using showNat_nonempty[of ts] by (simp add: storageFilename_def)
  have ne: "storageFilename ts name \<noteq> []"
    using showNat_nonempty[of ts] by (simp add: storageFilename_def)
  have "hd (storageFilename ts name) \<noteq> CHR ''.''" using h showNat_hd[of ts] by simp
  then have "storageFilename ts name \<noteq> ''.''" "storageFilename ts name \<noteq> ''..''"
    by auto
  with ne show ?thesis by simp
qed


text \<open>
  Claim C10. Every file that the upload endpoint accepts is stored under the timestamp,
  a hyphen, and the original name with each character outside \<open>[a-zA-Z0-9_.-]\<close> replaced
  by an underscore; the stored name has no path separator, is a single path segment
  other than \<open>.\<close> and \<open>..\<close>, and the file goes to the uploads directory itself, whatever
  the original name was.
\<close>

theorem upload_name_stays_in_uploads:
  "uploadEndpoint uploadsDir ts req = Inr stored \<Longrightarrow>
     (\<exists>f. req = Some f \<and> fileFilter f
        \<and> filename stored = showNat ts @ ''-'' @ map safeChar (originalname f))
     \<and> (\<forall>c \<in> set (filename stored). allowedChar c)
     \<and> CHR ''/'' \<notin> set (filename stored) \<and> CHR 0x5C \<notin> set (filename stored)
     \<and> pathSegments (filename stored) = [filename stored]
     \<and> filename stored \<notin> {[], ''.'', ''..''}
     \<and> destination stored = uploadsDir"
proof -
  assume a: "uploadEndpoint uploadsDir ts req = Inr stored"
  then obtain f where f: "req = Some f" "fileFilter f"
     "stored = \<lparr>destination = uploadsDir, filename = storageFilename ts (originalname f),
                    urlPath = ''/uploads/'' @ storageFilename ts (originalname f)\<rparr>"
    by (auto simp: uploadEndpoint_def split: option.splits if_splits)
  have fn: "filename stored = storageFilename ts (originalname f)" using f(3) by simp
  have al: "\<forall>c \<in> set (filename stored). allowedChar c"
    unfolding fn by (rule storageFilename_allowed)
  have s1: "CHR ''/'' \<notin> set (filename stored)" using al not_allowed_sep(1) by blast
  have s2: "CHR 0x5C \<notin> set (filename stored)" using al not_allowed_sep(2) by blast
  have nd: "filename stored \<notin> {[], ''.'', ''..''}"
    using storageFilename_not_dots[of ts "originalname f"] unfolding fn by blast
  have ex: "\<exists>f. req = Some f \<and> fileFilter f
        \<and> filename stored = showNat ts @ ''-'' @ map safeChar (originalname f)"
    using f(1,2) fn by (auto simp: storageFilename_def)
  have de: "destination stored = uploadsDir" using f(3) by simp
  from ex al s1 s2 pathSegments_single[OF s1 s2] nd de show ?thesis by blast
qed

theorem upload_name_stays_in_uploads_witness:
  "uploadEndpoint ''/srv/uploads'' 1730000000000
     (Some \<lparr>originalname = ''../../etc/pass wd.pdf'', mimetype = Some ''Application/PDF'',
            fileSize = 10\<rparr>)
   = Inr \<lparr>destination = ''/srv/uploads'', filename = ''1730000000000-.._.._etc_pass_wd.pdf'',
          urlPath = ''/uploads/1730000000000-.._.._etc_pass_wd.pdf''\<rparr>
   \<and> pathSegments ''1730000000000-.._.._etc_pass_wd.pdf'' = [''1730000000000-.._.._etc_pass_wd.pdf'']"
proof -
  let ?stored = "\<lparr>destination = ''/srv/uploads'', filename = ''1730000000000-.._.._etc_pass_wd.pdf'',
          urlPath = ''/uploads/1730000000000-.._.._etc_pass_wd.pdf''\<rparr>"
  have ff: "fileFilter \<lparr>originalname = ''../../etc/pass wd.pdf'',
      mimetype = Some ''Application/PDF'', fileSize = 10\<rparr>"
    by (simp add: fileFilter_def toLowerChar_def)
  have sn: "showNat 1730000000000 = ''1730000000000''"
    by (simp add: showNat.simps digitChar_def)
  have ev: "uploadEndpoint ''/srv/uploads'' 1730000000000
     (Some \<lparr>originalname = ''../../etc/pass wd.pdf'', mimetype = Some ''Application/PDF'',
            fileSize = 10\<rparr>) = Inr ?stored"
    using ff by (simp add: uploadEndpoint_def storageFilename_def sn safeChar_def allowedChar_def)
  from upload_name_stays_in_uploads [OF ev]
  have "pathSegments (filename ?stored) = [filename ?stored]"
    by (elim conjE)
  then have "pathSegments ''1730000000000-.._.._etc_pass_wd.pdf'' = [''1730000000000-.._.._etc_pass_wd.pdf'']"
    by (simp only: storedFile.select_convs)
  with ev show ?thesis by (rule conjI)
qed

section \<open>Verified properties: geometry and the place-and-recompose scenario\<close>

lemma toScreenSpace_after_toPdfSpace:
  "0 < s \<Longrightarrow>
     toScreenSpace (itemAt (toPdfSpace r h s) f) h s
       = \<lparr>leftPx = left_px r, topPx = top_px r + height_px r, widthPx = width_px r,
          heightPx = (if height_px r \<noteq> 0 then height_px r else f * s)\<rparr>"
  by (simp add: toScreenSpace_def itemAt_def toPdfSpace_def numOr_def field_simps)

text \<open>
  Claim C3 fails on the code. The scenario's rectangle (left 50, top 100, 180 wide, 20
  high) on a page 842 points tall at scale 1 goes to the PDF rectangle at \<open>x = 50\<close>,
  \<open>y = 722\<close>, and the overlay mapping brings it back at top 120, not 100: the overlay
  takes \<open>(pageHeight - y) * scale\<close> as the top, which is the rectangle's bottom edge.
  Left, width and height come back as they were.
\<close>

theorem overlay_round_trip_lowers_top:
  "toPdfSpace helloBox 842 1 = \<lparr>pdfX = 50, pdfY = 722, pdfWidth = 180, pdfHeight = 20\<rparr>
   \<and> toScreenSpace (itemAt (toPdfSpace helloBox 842 1) 12) 842 1
       = \<lparr>leftPx = 50, topPx = 120, widthPx = 180, heightPx = 20\<rparr>
   \<and> screenOf helloBox = \<lparr>leftPx = 50, topPx = 100, widthPx = 180, heightPx = 20\<rparr>
   \<and> toScreenSpace (itemAt (toPdfSpace helloBox 842 1) 12) 842 1 \<noteq> screenOf helloBox"
  by (simp add: toScreenSpace_def itemAt_def toPdfSpace_def screenOf_def numOr_def helloBox_def)

text \<open>
  The cover rectangle of the inline replacement takes the same \<open>y\<close> as the baseline with
  the glyphs above it: for the block at \<open>y = 700\<close>, 8 points high, it spans the PDF
  heights 698.4 to 707.2. The overlay of that block, at scale 1 on the 842-point page,
  spans the screen rows 142 to 150, which are the PDF heights 700 down to 692.
\<close>

lemma overlay_lies_below_cover:
  "coverRectangle sampleEnv totalItem ''Sum''
     = DrawRectangle 71 698.4 27 8.8 \<lparr>red = 1, green = 1, blue = 1\<rparr> 1
   \<and> toScreenSpace totalItem 842 1
     = \<lparr>leftPx = 72, topPx = 142, widthPx = 25, heightPx = 8\<rparr>"
  by (simp add: coverRectangle_def toScreenSpace_def totalItem_def itemFont_def sampleEnv_def
      numOr_def Let_def)

text \<open>
  Claim C2, as amended. On a one-page document 842 points tall, at scale 1.0, the box at
  left 50, top 100, 180 wide and 20 high, with text Hello and font size 12, is drawn by
  one text call at \<open>x = 50\<close>, \<open>y = 734\<close>: the bottom edge
  \<open>pageHeight - top/scale - height/scale = 722\<close> raised by the font size.
\<close>

theorem place_and_recompose_anchor:
  "scale st = 1 \<Longrightarrow>
     drawAllContent e st [(1, [helloBox])] [] [a4Page]
       = Inr [\<lparr>pageHeight = 842,
               content = [DrawText ''Hello'' 50 734 12
                            (if boldToggle st then HelveticaBold else Helvetica)
                            (hexToRgb01 (fontColorHex st))]\<rparr>]
     \<and> 734 = pageHeight a4Page - top_px helloBox / scale st - height_px helloBox / scale st
             + boxFontSize st helloBox"
  by (simp add: drawAllContent_def pageKeys_def pageGet_def orEmpty_def skippedBox_def
      helloBox_def isJsSpace_def drawOnPage_def boxDrawOp_def toPdfSpace_def boxFontSize_def
      numOr_def boxIsBold_def boxColor_def a4Page_def)

text \<open>The text of the scenario is drawn at 734, not at 722.\<close>

theorem place_and_recompose_anchor_counterexample:
  "drawAllContent sampleEnv ((initialEditor (Some ''/uploads/a.pdf'') None)\<lparr>scale := 1\<rparr>)
       [(1, [helloBox])] [] [a4Page]
     = Inr [\<lparr>pageHeight = 842,
             content = [DrawText ''Hello'' 50 734 12 Helvetica \<lparr>red = 0, green = 0, blue = 0\<rparr>]\<rparr>]
   \<and> (734::real) \<noteq> 722"
  by (simp add: drawAllContent_def pageKeys_def pageGet_def orEmpty_def skippedBox_def
      helloBox_def isJsSpace_def drawOnPage_def boxDrawOp_def toPdfSpace_def boxFontSize_def
      numOr_def boxIsBold_def boxColor_def a4Page_def initialEditor_def hexToRgb01_def
      hexVal_def hexPair_def)

theorem place_and_recompose_anchor_witness:
  "scale ((initialEditor (Some ''/uploads/a.pdf'') None)\<lparr>scale := 1\<rparr>) = 1
   \<and> drawAllContent sampleEnv ((initialEditor (Some ''/uploads/a.pdf'') None)\<lparr>scale := 1\<rparr>)
       [(1, [helloBox])] [] [a4Page]
     = Inr [\<lparr>pageHeight = 842,
             content = [DrawText ''Hello'' 50 734 12 Helvetica \<lparr>red = 0, green = 0, blue = 0\<rparr>]\<rparr>]"
proof -
  let ?st = "(initialEditor (Some ''/uploads/a.pdf'') None)\<lparr>scale := 1\<rparr>"
  have s: "scale ?st = 1" by simp
  from place_and_recompose_anchor [OF s, of sampleEnv] s show ?thesis
    by (simp add: initialEditor_def hexToRgb01_def hexVal_def hexPair_def)
qed

section \<open>Verified properties: annotation store and sync channel\<close>

lemma findIndexFrom_none: "\<forall>x \<in> set xs. \<not> pred x \<Longrightarrow> findIndexFrom i pred xs = -1"
  by (induction xs arbitrary: i) auto

lemma findIndex_absent: "boxId \<notin> ident ` set arr \<Longrightarrow> findIndex (\<lambda>b. ident b = boxId) arr = -1"
  by (auto simp: findIndex_def intro!: findIndexFrom_none)

text \<open>
  Claim C7, as amended. Updating a box whose identifier is not in the page's list raises
  nothing and leaves the list as it is, and nothing is reported. The client's \<open>updateBox\<close>
  returns the state it was given (its console included), and still emits the
  \<open>update_box\<close> message to the server when it has a socket, as it does for a known
  identifier. The server's \<open>update_box\<close> handler returns normally with the cache as it
  was and emits nothing.
\<close>

theorem update_unknown_box_leaves_list:
  "(boxId \<notin> ident ` set (orEmpty (pageGet (boxes st) pageNumber)) \<longrightarrow>
      fst (updateBox pageNumber boxId patch st) = st
      \<and> pageGet (boxes (fst (updateBox pageNumber boxId patch st))) pageNumber
          = pageGet (boxes st) pageNumber
      \<and> snd (updateBox pageNumber boxId patch st)
          = (if truthyStr (docId st)
             then [(update_box, \<lparr>m_docId = docId st, m_pageNumber = Some pageNumber,
                      m_boxId = Some boxId, m_box = None, m_patch = patch, m_imageId = None,
                      m_image = None\<rparr>)]
             else []))
   \<and> (m_docId m = Some d \<and> m_pageNumber m = Some pageNumber \<and> m_boxId m = Some boxId
       \<and> boxId \<notin> ident ` set (orEmpty (pageGet (rs_boxes (stateOrNew srv d)) pageNumber)) \<longrightarrow>
      onMessage update_box sock (Some m) srv = Inr (srv, []))"
proof -
  have client: "boxId \<notin> ident ` set (orEmpty (pageGet (boxes st) pageNumber)) \<longrightarrow>
      fst (updateBox pageNumber boxId patch st) = st
      \<and> pageGet (boxes (fst (updateBox pageNumber boxId patch st))) pageNumber
          = pageGet (boxes st) pageNumber
      \<and> snd (updateBox pageNumber boxId patch st)
          = (if truthyStr (docId st)
             then [(update_box, \<lparr>m_docId = docId st, m_pageNumber = Some pageNumber,
                      m_boxId = Some boxId, m_box = None, m_patch = patch, m_imageId = None,
                      m_image = None\<rparr>)]
             else [])"
  proof
    assume a: "boxId \<notin> ident ` set (orEmpty (pageGet (boxes st) pageNumber))"
    have i: "findIndex (\<lambda>b. ident b = boxId) (orEmpty (pageGet (boxes st) pageNumber)) = -1"
      using a by (rule findIndex_absent)
    have u: "updateBoxes pageNumber boxId patch (boxes st) = boxes st"
      by (simp add: updateBoxes_def i)
    show "fst (updateBox pageNumber boxId patch st) = st
      \<and> pageGet (boxes (fst (updateBox pageNumber boxId patch st))) pageNumber
          = pageGet (boxes st) pageNumber
      \<and> snd (updateBox pageNumber boxId patch st)
          = (if truthyStr (docId st)
             then [(update_box, \<lparr>m_docId = docId st, m_pageNumber = Some pageNumber,
                      m_boxId = Some boxId, m_box = None, m_patch = patch, m_imageId = None,
                      m_image = None\<rparr>)]
             else [])"
      using u by (simp add: updateBox_def)
  qed
  have srv: "m_docId m = Some d \<and> m_pageNumber m = Some pageNumber \<and> m_boxId m = Some boxId
       \<and> boxId \<notin> ident ` set (orEmpty (pageGet (rs_boxes (stateOrNew srv d)) pageNumber)) \<longrightarrow>
      onMessage update_box sock (Some m) srv = Inr (srv, [])"
  proof
    assume a: "m_docId m = Some d \<and> m_pageNumber m = Some pageNumber \<and> m_boxId m = Some boxId
       \<and> boxId \<notin> ident ` set (orEmpty (pageGet (rs_boxes (stateOrNew srv d)) pageNumber))"
    then have i: "findIndex (\<lambda>b. ident b = boxId)
        (orEmpty (pageGet (rs_boxes (stateOrNew srv d)) pageNumber)) = -1"
      using findIndex_absent by blast
    show "onMessage update_box sock (Some m) srv = Inr (srv, [])"
      using a i by (simp add: onUpdateBox_def Let_def)
  qed
  from client srv show ?thesis by (rule conjI)
qed

lemma payload_missing_field_dropped:
  "missingRequired ev m \<Longrightarrow> onMessage ev sock (Some m) srv = Inr (srv, [])"
  by (cases ev)
     (auto simp: onJoin_def onAddBox_def onUpdateBox_def onDeleteBox_def onLockBox_def
        onUnlockBox_def truthyStr_def truthyNat_def)

lemma image_event_without_listener:
  "onMessage add_image sock payload srv = Inr (srv, [])"
  "onMessage update_image sock payload srv = Inr (srv, [])"
  "onMessage delete_image sock payload srv = Inr (srv, [])"
  by simp_all

text \<open>
  Claim C8 fails on the code for a message that comes without a payload (or with
  \<open>null\<close>), which lacks every required field: each of the six listeners destructures
  its first argument in its parameter list, so the handler throws a \<open>TypeError\<close> before
  its guard, where a silent drop is claimed. A payload object that lacks a required
  field is dropped as claimed (\<open>payload_missing_field_dropped\<close>), here a \<open>delete_box\<close>
  without \<open>boxId\<close>.
\<close>

theorem message_without_payload_throws:
  "onMessage delete_box 7 None roomWithHello = Inl TypeError
   \<and> onMessage join 7 None roomWithHello = Inl TypeError
   \<and> onMessage add_box 7 None roomWithHello = Inl TypeError
   \<and> onMessage update_box 7 None roomWithHello = Inl TypeError
   \<and> onMessage lock_box 7 None roomWithHello = Inl TypeError
   \<and> onMessage unlock_box 7 None roomWithHello = Inl TypeError
   \<and> onMessage delete_box 7 (Some (updateMsg ''d1'' 1 None)) roomWithHello
       = Inr (roomWithHello, [])"
  by (simp add: onDeleteBox_def updateMsg_def truthyStr_def truthyNat_def)

text \<open>
  Claim C5, as amended. A join message with a non-empty document identifier is handled
  without error: it enrolls the connection in the document's room, creates the cache
  entry when there is none (and leaves every other entry alone), and answers the joiner
  alone with one \<open>init_state\<close> whose payload carries the cached boxes and no images.
\<close>

theorem join_replies_with_cached_boxes:
  "truthyStr (m_docId m) \<Longrightarrow>
     onMessage join sock (Some m) srv = Inr (onJoin sock m srv)
     \<and> (sock, the (m_docId m)) \<in> rooms (fst (onJoin sock m srv))
     \<and> docs (fst (onJoin sock m srv)) (the (m_docId m))
         = Some (stateOrNew srv (the (m_docId m)))
     \<and> (\<forall>d'. d' \<noteq> the (m_docId m) \<longrightarrow>
           docs (fst (onJoin sock m srv)) d' = docs srv d')
     \<and> snd (onJoin sock m srv)
         = [(ToSender sock,
             init_state \<lparr>ip_boxes = rs_boxes (stateOrNew srv (the (m_docId m))),
                         ip_images = None\<rparr>)]"
  by (auto simp: onJoin_def Let_def stateOrNew_def split: option.splits)

theorem update_unknown_box_leaves_list_witness:
  "''zz'' \<notin> ident ` set (orEmpty (pageGet
       (boxes ((initialEditor None (Some ''d1''))\<lparr>boxes := [(1, [helloBox])]\<rparr>)) 1))
   \<and> boxes (fst (updateBox 1 ''zz'' (Some movePatch)
         ((initialEditor None (Some ''d1''))\<lparr>boxes := [(1, [helloBox])]\<rparr>)))
       = [(1, [helloBox])]
   \<and> snd (updateBox 1 ''zz'' (Some movePatch)
         ((initialEditor None (Some ''d1''))\<lparr>boxes := [(1, [helloBox])]\<rparr>))
       = [(update_box, updateMsg ''d1'' 1 (Some ''zz''))]
   \<and> m_docId (updateMsg ''d1'' 1 (Some ''zz'')) = Some ''d1''
   \<and> m_pageNumber (updateMsg ''d1'' 1 (Some ''zz'')) = Some 1
   \<and> m_boxId (updateMsg ''d1'' 1 (Some ''zz'')) = Some ''zz''
   \<and> ''zz'' \<notin> ident ` set (orEmpty (pageGet (rs_boxes (stateOrNew roomWithHello ''d1'')) 1))
   \<and> onMessage update_box 7 (Some (updateMsg ''d1'' 1 (Some ''zz''))) roomWithHello
       = Inr (roomWithHello, [])"
proof -
  let ?st = "(initialEditor None (Some ''d1''))\<lparr>boxes := [(1, [helloBox])]\<rparr>"
  have c: "''zz'' \<notin> ident ` set (orEmpty (pageGet (boxes ?st) 1))"
    by (simp add: pageGet_def orEmpty_def helloBox_def)
  have m: "m_docId (updateMsg ''d1'' 1 (Some ''zz'')) = Some ''d1''
     \<and> m_pageNumber (updateMsg ''d1'' 1 (Some ''zz'')) = Some 1
     \<and> m_boxId (updateMsg ''d1'' 1 (Some ''zz'')) = Some ''zz''"
    by (simp add: updateMsg_def)
  have s: "''zz'' \<notin> ident ` set (orEmpty (pageGet (rs_boxes (stateOrNew roomWithHello ''d1'')) 1))"
    by (simp add: pageGet_def orEmpty_def helloBox_def stateOrNew_def roomWithHello_def)
  have d: "truthyStr (docId ?st)" "docId ?st = Some ''d1''"
    by (simp_all add: initialEditor_def truthyStr_def)
  from update_unknown_box_leaves_list
         [of "''zz''" ?st 1 "Some movePatch" "updateMsg ''d1'' 1 (Some ''zz'')" "''d1''" roomWithHello 7]
       c m s d
  show ?thesis by (simp add: updateMsg_def)
qed

text \<open>
  For an unknown identifier the client is not idle, it emits \<open>update_box\<close>; and the
  server answers an unknown identifier exactly as it answers a message without
  \<open>boxId\<close>: no output tells that the box was not found.
\<close>

theorem update_unknown_box_leaves_list_counterexample:
  "snd (updateBox 1 ''zz'' (Some movePatch)
         ((initialEditor None (Some ''d1''))\<lparr>boxes := [(1, [helloBox])]\<rparr>))
     = [(update_box, updateMsg ''d1'' 1 (Some ''zz''))]
   \<and> snd (updateBox 1 ''zz'' (Some movePatch)
         ((initialEditor None (Some ''d1''))\<lparr>boxes := [(1, [helloBox])]\<rparr>)) \<noteq> []
   \<and> onMessage update_box 7 (Some (updateMsg ''d1'' 1 (Some ''zz''))) roomWithHello
       = Inr (roomWithHello, [])
   \<and> onMessage update_box 7 (Some (updateMsg ''d1'' 1 (Some ''zz''))) roomWithHello
       = onMessage update_box 7 (Some (updateMsg ''d1'' 1 None)) roomWithHello"
  by (simp add: updateBox_def updateMsg_def initialEditor_def truthyStr_def truthyNat_def
      onUpdateBox_def Let_def stateOrNew_def roomWithHello_def pageGet_def orEmpty_def
      findIndex_def helloBox_def)

theorem join_replies_with_cached_boxes_witness:
  "truthyStr (m_docId (joinMsg ''d1''))
   \<and> onMessage join 8 (Some (joinMsg ''d1'')) roomWithHello
       = Inr (onJoin 8 (joinMsg ''d1'') roomWithHello)
   \<and> snd (onJoin 8 (joinMsg ''d1'') roomWithHello)
       = [(ToSender 8, init_state \<lparr>ip_boxes = [(1, [helloBox])], ip_images = None\<rparr>)]
   \<and> (8, ''d1'') \<in> rooms (fst (onJoin 8 (joinMsg ''d1'') roomWithHello))
   \<and> docs (fst (onJoin 8 (joinMsg ''d2'') roomWithHello)) ''d2''
       = Some \<lparr>rs_boxes = [], rs_pdfUrl = None\<rparr>"
proof -
  have h1: "truthyStr (m_docId (joinMsg ''d1''))" by (simp add: joinMsg_def truthyStr_def)
  have h2: "truthyStr (m_docId (joinMsg ''d2''))" by (simp add: joinMsg_def truthyStr_def)
  from join_replies_with_cached_boxes [OF h1, of 8 roomWithHello]
       join_replies_with_cached_boxes [OF h2, of 8 roomWithHello] h1
  show ?thesis by (simp add: joinMsg_def stateOrNew_def roomWithHello_def)
qed

text \<open>
  Images that an editor persisted for the document are not in the \<open>init_state\<close> payload
  of a later join.
\<close>

theorem join_replies_with_cached_boxes_counterexample:
  "onMessage join 8 (Some (joinMsg ''d1''))
       (postDoc ''d1'' \<lparr>dp_boxes = Some [(1, [helloBox])], dp_images = Some [(1, [gifImage])],
                         dp_pdfUrl = None\<rparr> emptyServer)
     = Inr (onJoin 8 (joinMsg ''d1'')
       (postDoc ''d1'' \<lparr>dp_boxes = Some [(1, [helloBox])], dp_images = Some [(1, [gifImage])],
                         dp_pdfUrl = None\<rparr> emptyServer))
   \<and> snd (onJoin 8 (joinMsg ''d1'')
          (postDoc ''d1'' \<lparr>dp_boxes = Some [(1, [helloBox])], dp_images = Some [(1, [gifImage])],
                            dp_pdfUrl = None\<rparr> emptyServer))
     = [(ToSender 8, init_state \<lparr>ip_boxes = [(1, [helloBox])], ip_images = None\<rparr>)]
   \<and> ip_images \<lparr>ip_boxes = [(1, [helloBox])], ip_images = None\<rparr> \<noteq> Some [(1, [gifImage])]"
  by (simp add: onJoin_def postDoc_def emptyServer_def joinMsg_def stateOrNew_def truthyStr_def
      Let_def)

section \<open>Verified properties: recomposition pipeline\<close>

lemma boxDrawOp_controls: "sameControls st st' \<Longrightarrow> boxDrawOp st h b = boxDrawOp st' h b"
  by (auto simp: sameControls_def boxDrawOp_def boxFontSize_def boxColor_def boxIsBold_def
      split: option.splits)

lemma embedBoxesOnPage_controls:
  "sameControls st st' \<Longrightarrow> embedBoxesOnPage st i bs doc = embedBoxesOnPage st' i bs doc"
  by (induction bs arbitrary: doc) (simp_all add: boxDrawOp_controls)

lemma embedBoxPages_controls:
  "sameControls st st' \<Longrightarrow> embedBoxPages st obj ks doc = embedBoxPages st' obj ks doc"
  by (induction ks arbitrary: doc) (simp_all add: embedBoxesOnPage_controls Let_def)

lemma embedImage_codec: "sameCodec e e' \<Longrightarrow> embedImage e img = embedImage e' img"
  by (auto simp: sameCodec_def embedImage_def embedPng_def embedJpg_def)

lemma imageDrawOp_controls:
  "sameControls st st' \<Longrightarrow> imageDrawOp st h img p = imageDrawOp st' h img p"
  by (auto simp: sameControls_def imageDrawOp_def)

lemma embedImagesOnPage_same:
  "sameControls st st' \<Longrightarrow> sameCodec e e' \<Longrightarrow>
     embedImagesOnPage e st i imgs doc = embedImagesOnPage e' st' i imgs doc"
  by (induction imgs arbitrary: doc)
     (simp_all add: embedImage_codec imageDrawOp_controls split: option.splits)

lemma embedImagePages_same:
  "sameControls st st' \<Longrightarrow> sameCodec e e' \<Longrightarrow>
     embedImagePages e st obj ks doc = embedImagePages e' st' obj ks doc"
  by (induction ks arbitrary: doc)
     (simp_all add: embedImagesOnPage_same[of st st' e e'] Let_def split: sum.splits)

lemma drawAllContent_same:
  "sameControls st st' \<Longrightarrow> sameCodec e e' \<Longrightarrow>
     drawAllContent e st bxs ims doc = drawAllContent e' st' bxs ims doc"
  by (simp add: drawAllContent_def embedImagePages_same[of st st' e e']
      embedBoxPages_controls[of st st'])

lemma keepsInputs_refl: "keepsInputs st st"
  by (simp add: keepsInputs_def sameControls_def)

lemma keepsInputs_logError: "keepsInputs st (logError l st)"
  by (simp add: keepsInputs_def sameControls_def logError_def)

lemma keepsInputs_publish: "keepsInputs st (publishBytes e hi b st)"
  by (simp add: keepsInputs_def sameControls_def publishBytes_def adoptLocal_def
      pushHistory_def Let_def split: option.splits)

lemma pdfBuffer_publish: "pdfBuffer (publishBytes e hi b st) = Some b"
  by (simp add: publishBytes_def adoptLocal_def pushHistory_def Let_def split: option.splits)

lemma extract_keeps:
  "extractTextItems e b st = (r, st') \<Longrightarrow> keepsInputs st st' \<and> pdfBuffer st' = pdfBuffer st"
  by (auto simp: extractTextItems_def keepsInputs_def sameControls_def
      split: option.splits prod.splits)

lemma keepsInputs_trans: "keepsInputs a b \<Longrightarrow> keepsInputs b c \<Longrightarrow> keepsInputs a c"
  by (simp add: keepsInputs_def sameControls_def)

lemma embedAllContent_result:
  "keepsInputs st (embedAllContent e st doc bxs ims)
   \<and> pdfBuffer (embedAllContent e st doc bxs ims)
       = (case drawAllContent e st bxs ims doc of
            Inl err \<Rightarrow> pdfBuffer st
          | Inr d \<Rightarrow> Some (save e d))"
proof (cases "drawAllContent e st bxs ims doc")
  case (Inl err)
  then show ?thesis by (simp add: embedAllContent_def keepsInputs_logError) (simp add: logError_def)
next
  case (Inr d)
  let ?st1 = "publishBytes e (historyIndex st) (save e d) st"
  obtain r st2 where x: "extractTextItems e (save e d) ?st1 = (r, st2)"
    by (cases "extractTextItems e (save e d) ?st1")
  from extract_keeps[OF x] keepsInputs_publish[of st e "historyIndex st" "save e d"]
  have k: "keepsInputs st st2" and b: "pdfBuffer st2 = Some (save e d)"
    using keepsInputs_trans pdfBuffer_publish by auto
  have k': "keepsInputs st (logError ''Failed to embed all content:'' st2)"
    using k keepsInputs_logError[of st2] by (rule keepsInputs_trans)
  have b': "pdfBuffer (logError ''Failed to embed all content:'' st2) = Some (save e d)"
    using b by (simp add: logError_def)
  show ?thesis using Inr x k b k' b'
    by (cases r) (simp_all add: embedAllContent_def Let_def)
qed

lemma rebuild_keeps: "keepsInputs st (rebuildPdfWithAllContent e bx im st)"
  by (auto simp: rebuildPdfWithAllContent_def Let_def keepsInputs_refl keepsInputs_logError
      embedAllContent_result split: sum.splits)

lemma rebuild_pdfBuffer:
  "truthyStr (fileUrl st) \<Longrightarrow>
   pdfBuffer (rebuildPdfWithAllContent e bx im st)
     = (case fetchAndLoad e (the (fileUrl st)) of
          Inl err \<Rightarrow> pdfBuffer st
        | Inr doc \<Rightarrow>
            (case drawAllContent e st (case bx of None \<Rightarrow> boxes st | Some b \<Rightarrow> b)
                    (case im of None \<Rightarrow> images st | Some i \<Rightarrow> i) doc of
               Inl err \<Rightarrow> pdfBuffer st
             | Inr d \<Rightarrow> Some (save e d)))"
  by (simp add: rebuildPdfWithAllContent_def Let_def embedAllContent_result logError_def
      split: sum.splits)

lemma fetchAndLoad_same:
  "sameCodec e e' \<Longrightarrow> fetch e' u = fetch e u \<Longrightarrow> fetchAndLoad e' u = fetchAndLoad e u"
  by (auto simp: fetchAndLoad_def sameCodec_def split: option.splits)

text \<open>
  Claim C1. With a \<open>fileUrl\<close> to load from, a codec that behaves the same in both runs and
  the same original bytes behind \<open>fileUrl\<close>, running \<open>rebuildPdfWithAllContent\<close> a second
  time on the state that the first run left, with the same annotation sets, gives the
  same document buffer as the first run; when the first run drew and saved, both
  buffers are the saved result of drawing the annotations once on the document loaded
  from the original bytes. Upload outcome, clock and object URLs may differ between
  the runs.
\<close>

theorem recomposition_idempotent:
  "truthyStr (fileUrl st) \<Longrightarrow> sameCodec e1 e2 \<Longrightarrow>
   fetch e2 (the (fileUrl st)) = fetch e1 (the (fileUrl st)) \<Longrightarrow>
     pdfBuffer (rebuildPdfWithAllContent e2 bx im (rebuildPdfWithAllContent e1 bx im st))
       = pdfBuffer (rebuildPdfWithAllContent e1 bx im st)
     \<and> (\<forall>doc d. fetchAndLoad e1 (the (fileUrl st)) = Inr doc
           \<and> drawAllContent e1 st (case bx of None \<Rightarrow> boxes st | Some b \<Rightarrow> b)
                (case im of None \<Rightarrow> images st | Some i \<Rightarrow> i) doc = Inr d
         \<longrightarrow> pdfBuffer (rebuildPdfWithAllContent e1 bx im st) = Some (save e1 d)
             \<and> pdfBuffer (rebuildPdfWithAllContent e2 bx im
                  (rebuildPdfWithAllContent e1 bx im st)) = Some (save e1 d))"
proof -
  assume t: "truthyStr (fileUrl st)" and c: "sameCodec e1 e2"
    and f: "fetch e2 (the (fileUrl st)) = fetch e1 (the (fileUrl st))"
  define st1 where "st1 = rebuildPdfWithAllContent e1 bx im st"
  have k: "keepsInputs st st1" unfolding st1_def by (rule rebuild_keeps)
  then have t1: "truthyStr (fileUrl st1)" and u: "fileUrl st1 = fileUrl st"
    and bi: "boxes st1 = boxes st" "images st1 = images st" and sc: "sameControls st st1"
    using t by (simp_all add: keepsInputs_def)
  have fl: "fetchAndLoad e2 (the (fileUrl st)) = fetchAndLoad e1 (the (fileUrl st))"
    using c f by (rule fetchAndLoad_same)
  have dr: "\<And>bxs ims doc. drawAllContent e2 st1 bxs ims doc = drawAllContent e1 st bxs ims doc"
    using drawAllContent_same[of st st1 e1 e2] sc c by simp
  have sv: "save e2 = save e1" using c by (simp add: sameCodec_def)
  have b1: "pdfBuffer st1
     = (case fetchAndLoad e1 (the (fileUrl st)) of
          Inl err \<Rightarrow> pdfBuffer st
        | Inr doc \<Rightarrow>
            (case drawAllContent e1 st (case bx of None \<Rightarrow> boxes st | Some b \<Rightarrow> b)
                    (case im of None \<Rightarrow> images st | Some i \<Rightarrow> i) doc of
               Inl err \<Rightarrow> pdfBuffer st
             | Inr d \<Rightarrow> Some (save e1 d)))"
    unfolding st1_def using t by (rule rebuild_pdfBuffer)
  have b2: "pdfBuffer (rebuildPdfWithAllContent e2 bx im st1)
     = (case fetchAndLoad e1 (the (fileUrl st)) of
          Inl err \<Rightarrow> pdfBuffer st1
        | Inr doc \<Rightarrow>
            (case drawAllContent e1 st (case bx of None \<Rightarrow> boxes st | Some b \<Rightarrow> b)
                    (case im of None \<Rightarrow> images st | Some i \<Rightarrow> i) doc of
               Inl err \<Rightarrow> pdfBuffer st1
             | Inr d \<Rightarrow> Some (save e1 d)))"
    using rebuild_pdfBuffer[OF t1, of e2 bx im]
    by (simp add: u fl dr bi sv cong: sum.case_cong option.case_cong)
  have eq: "pdfBuffer (rebuildPdfWithAllContent e2 bx im st1) = pdfBuffer st1"
    using b1 b2 by (auto split: sum.splits)
  have ex: "\<forall>doc d. fetchAndLoad e1 (the (fileUrl st)) = Inr doc
           \<and> drawAllContent e1 st (case bx of None \<Rightarrow> boxes st | Some b \<Rightarrow> b)
                (case im of None \<Rightarrow> images st | Some i \<Rightarrow> i) doc = Inr d
         \<longrightarrow> pdfBuffer st1 = Some (save e1 d)
             \<and> pdfBuffer (rebuildPdfWithAllContent e2 bx im st1) = Some (save e1 d)"
    using b1 b2 by auto
  from eq ex show ?thesis unfolding st1_def by (rule conjI)
qed


lemma sample_fetchAndLoad: "fetchAndLoad sampleEnv ''/uploads/a.pdf'' = Inr [a4Page]"
  by (simp add: fetchAndLoad_def sampleEnv_def sampleLoad_def a4Page_def)

lemma hello_draw:
  "drawAllContent sampleEnv helloEditor [(1, [helloBox])] [] [a4Page]
     = Inr [\<lparr>pageHeight = 842,
             content = [DrawText ''Hello'' 50 734 12 Helvetica \<lparr>red = 0, green = 0, blue = 0\<rparr>]\<rparr>]"
  by (simp add: drawAllContent_def pageKeys_def pageGet_def orEmpty_def skippedBox_def
      helloBox_def isJsSpace_def drawOnPage_def boxDrawOp_def toPdfSpace_def boxFontSize_def
      numOr_def boxIsBold_def boxColor_def a4Page_def initialEditor_def hexToRgb01_def
      hexVal_def hexPair_def helloEditor_def)

theorem recomposition_idempotent_witness:
  "truthyStr (fileUrl helloEditor)
   \<and> sameCodec sampleEnv (sampleEnv\<lparr>uploadPdfBlob := (\<lambda>_. None), now := 2\<rparr>)
   \<and> pdfBuffer (rebuildPdfWithAllContent sampleEnv None None helloEditor)
       = Some [0x25, 0x50, 0x44, 0x46, 1]
   \<and> pdfBuffer (rebuildPdfWithAllContent (sampleEnv\<lparr>uploadPdfBlob := (\<lambda>_. None), now := 2\<rparr>)
         None None (rebuildPdfWithAllContent sampleEnv None None helloEditor))
       = Some [0x25, 0x50, 0x44, 0x46, 1]"
proof -
  let ?e2 = "sampleEnv\<lparr>uploadPdfBlob := (\<lambda>_. None), now := 2\<rparr>"
  have t: "truthyStr (fileUrl helloEditor)"
    by (simp add: helloEditor_def initialEditor_def truthyStr_def)
  have c: "sameCodec sampleEnv ?e2" by (simp add: sameCodec_def)
  have f: "fetch ?e2 (the (fileUrl helloEditor)) = fetch sampleEnv (the (fileUrl helloEditor))"
    by simp
  have u: "the (fileUrl helloEditor) = ''/uploads/a.pdf''"
    by (simp add: helloEditor_def initialEditor_def)
  have bi: "boxes helloEditor = [(1, [helloBox])]" "images helloEditor = []"
    by (simp_all add: helloEditor_def initialEditor_def)
  have sv: "save sampleEnv [\<lparr>pageHeight = 842,
             content = [DrawText ''Hello'' 50 734 12 Helvetica \<lparr>red = 0, green = 0, blue = 0\<rparr>]\<rparr>]
           = [0x25, 0x50, 0x44, 0x46, 1]"
    by (simp add: sampleEnv_def sampleSave_def)
  from recomposition_idempotent [OF t c f, of None None] sample_fetchAndLoad hello_draw
  have "pdfBuffer (rebuildPdfWithAllContent sampleEnv None None helloEditor)
          = Some [0x25, 0x50, 0x44, 0x46, 1]
      \<and> pdfBuffer (rebuildPdfWithAllContent ?e2 None None
           (rebuildPdfWithAllContent sampleEnv None None helloEditor))
          = Some [0x25, 0x50, 0x44, 0x46, 1]"
    by (simp add: u bi sv)
  with t c show ?thesis by simp
qed

lemma length_drawOnPage: "length (drawOnPage i op doc) = length doc"
  by (simp add: drawOnPage_def)

lemma length_embedBoxesOnPage: "length (embedBoxesOnPage st i bs doc) = length doc"
  by (induction bs arbitrary: doc) (simp_all add: length_drawOnPage)

lemma length_embedBoxPages: "length (embedBoxPages st obj ks doc) = length doc"
  by (induction ks arbitrary: doc) (simp_all add: length_embedBoxesOnPage Let_def)

lemma embedImagesOnPage_length:
  "embedImagesOnPage e st i imgs doc = Inr d \<Longrightarrow> length d = length doc"
  by (induction imgs arbitrary: doc) (auto simp: length_drawOnPage split: option.splits)

lemma embedImagesOnPage_err:
  "embedImagesOnPage e st i imgs doc = Inl err \<Longrightarrow> err = EmbedFailed"
  by (induction imgs arbitrary: doc) (auto split: option.splits)

lemma embedImagesOnPage_fail:
  "img \<in> set imgs \<Longrightarrow> embedImage e img = None \<Longrightarrow>
     embedImagesOnPage e st i imgs doc = Inl EmbedFailed"
  by (induction imgs arbitrary: doc) (auto split: option.splits)

lemma embedImagePages_fail:
  "k \<in> set ks \<Longrightarrow> 1 \<le> k \<Longrightarrow> k \<le> length doc \<Longrightarrow> pageGet obj k = Some imgs \<Longrightarrow>
   img \<in> set imgs \<Longrightarrow> embedImage e img = None \<Longrightarrow>
     embedImagePages e st obj ks doc = Inl EmbedFailed"
proof (induction ks arbitrary: doc)
  case Nil
  then show ?case by simp
next
  case (Cons a ks)
  show ?case
  proof (cases "0 \<le> int a - 1 \<and> int a - 1 < int (length doc)")
    case False
    then have "a \<noteq> k" using Cons.prems(2,3) by auto
    then have "k \<in> set ks" using Cons.prems(1) by simp
    from Cons.IH[OF this Cons.prems(2-6)] False show ?thesis by (auto simp: Let_def)
  next
    case True
    show ?thesis
    proof (cases "embedImagesOnPage e st (nat (int a - 1)) (orEmpty (pageGet obj a)) doc")
      case (Inl err)
      then show ?thesis using True embedImagesOnPage_err[OF Inl] by (auto simp: Let_def)
    next
      case (Inr doc1)
      have "a \<noteq> k"
      proof
        assume "a = k"
        then have "embedImagesOnPage e st (nat (int a - 1)) (orEmpty (pageGet obj a)) doc
                     = Inl EmbedFailed"
          using Cons.prems(4,5,6) embedImagesOnPage_fail[of img imgs e st] by (simp add: orEmpty_def)
        with Inr show False by simp
      qed
      then have ks: "k \<in> set ks" using Cons.prems(1) by simp
      have len: "k \<le> length doc1" using embedImagesOnPage_length[OF Inr] Cons.prems(3) by simp
      from Cons.IH[OF ks Cons.prems(2) len Cons.prems(4-6)] True Inr show ?thesis
        by (auto simp: Let_def)
    qed
  qed
qed

lemma pageGet_key: "pageGet obj k = Some v \<Longrightarrow> k \<in> set (pageKeys obj)"
  by (auto simp: pageGet_def pageKeys_def dest!: map_of_SomeD intro: rev_image_eqI)

lemma drawAllContent_fail:
  "1 \<le> k \<Longrightarrow> k \<le> length doc \<Longrightarrow> pageGet ims k = Some imgs \<Longrightarrow> img \<in> set imgs \<Longrightarrow>
   embedImage e img = None \<Longrightarrow> drawAllContent e st bxs ims doc = Inl EmbedFailed"
  unfolding drawAllContent_def
  by (rule embedImagePages_fail[where k = k and imgs = imgs and img = img])
     (simp_all add: pageGet_key length_embedBoxPages)

lemma embedImage_none:
  "embedImage e img = None \<longleftrightarrow>
     (\<not> pngOk e (imageBytes img) \<and> (jpegDeclared img \<longrightarrow> \<not> jpgOk e (imageBytes img)))"
  by (auto simp: embedImage_def embedPng_def embedJpg_def jpegDeclared_def Let_def
      split: option.splits)

text \<open>
  Claim C6, as amended. An image declared as JPEG that the JPEG decoder refuses is tried
  once more as PNG and embedded when that succeeds. An image on a page of the
  document that the PNG decoder refuses (and, when it is declared as JPEG, the JPEG
  decoder too) makes the whole recomposition stop in \<open>embedAllContent\<close>'s outer handler:
  the failure is logged, nothing is saved (buffer, URL and history stay as they were),
  and nothing is thrown to the caller.
\<close>

theorem undecodable_image_aborts_recomposition:
  "(jpegDeclared img \<and> \<not> jpgOk e (imageBytes img) \<and> pngOk e (imageBytes img) \<longrightarrow>
      embedImage e img = Some (PngImage (imageBytes img)))
   \<and> (truthyStr (fileUrl st) \<and> fetchAndLoad e (the (fileUrl st)) = Inr doc
       \<and> 1 \<le> k \<and> k \<le> length doc \<and> pageGet ims k = Some imgs \<and> img \<in> set imgs
       \<and> \<not> pngOk e (imageBytes img) \<and> (jpegDeclared img \<longrightarrow> \<not> jpgOk e (imageBytes img)) \<longrightarrow>
      rebuildPdfWithAllContent e bx (Some ims) st = logError ''Failed to embed all content:'' st
      \<and> pdfBuffer (rebuildPdfWithAllContent e bx (Some ims) st) = pdfBuffer st
      \<and> editedUrl (rebuildPdfWithAllContent e bx (Some ims) st) = editedUrl st
      \<and> history (rebuildPdfWithAllContent e bx (Some ims) st) = history st
      \<and> historyIndex (rebuildPdfWithAllContent e bx (Some ims) st) = historyIndex st)"
proof -
  have retry: "jpegDeclared img \<and> \<not> jpgOk e (imageBytes img) \<and> pngOk e (imageBytes img) \<longrightarrow>
      embedImage e img = Some (PngImage (imageBytes img))"
    by (auto simp: embedImage_def embedPng_def embedJpg_def jpegDeclared_def)
  have abort: "truthyStr (fileUrl st) \<and> fetchAndLoad e (the (fileUrl st)) = Inr doc
       \<and> 1 \<le> k \<and> k \<le> length doc \<and> pageGet ims k = Some imgs \<and> img \<in> set imgs
       \<and> \<not> pngOk e (imageBytes img) \<and> (jpegDeclared img \<longrightarrow> \<not> jpgOk e (imageBytes img)) \<longrightarrow>
      rebuildPdfWithAllContent e bx (Some ims) st = logError ''Failed to embed all content:'' st
      \<and> pdfBuffer (rebuildPdfWithAllContent e bx (Some ims) st) = pdfBuffer st
      \<and> editedUrl (rebuildPdfWithAllContent e bx (Some ims) st) = editedUrl st
      \<and> history (rebuildPdfWithAllContent e bx (Some ims) st) = history st
      \<and> historyIndex (rebuildPdfWithAllContent e bx (Some ims) st) = historyIndex st"
  proof
    assume a: "truthyStr (fileUrl st) \<and> fetchAndLoad e (the (fileUrl st)) = Inr doc
       \<and> 1 \<le> k \<and> k \<le> length doc \<and> pageGet ims k = Some imgs \<and> img \<in> set imgs
       \<and> \<not> pngOk e (imageBytes img) \<and> (jpegDeclared img \<longrightarrow> \<not> jpgOk e (imageBytes img))"
    then have n: "embedImage e img = None" by (simp add: embedImage_none)
    have d: "drawAllContent e st (case bx of None \<Rightarrow> boxes st | Some b \<Rightarrow> b) ims doc
               = Inl EmbedFailed"
      using a n drawAllContent_fail[of k doc ims imgs img e st] by blast
    have r: "rebuildPdfWithAllContent e bx (Some ims) st
               = logError ''Failed to embed all content:'' st"
      using a d by (simp add: rebuildPdfWithAllContent_def embedAllContent_def)
    show "rebuildPdfWithAllContent e bx (Some ims) st = logError ''Failed to embed all content:'' st
      \<and> pdfBuffer (rebuildPdfWithAllContent e bx (Some ims) st) = pdfBuffer st
      \<and> editedUrl (rebuildPdfWithAllContent e bx (Some ims) st) = editedUrl st
      \<and> history (rebuildPdfWithAllContent e bx (Some ims) st) = history st
      \<and> historyIndex (rebuildPdfWithAllContent e bx (Some ims) st) = historyIndex st"
      unfolding r by (simp add: logError_def)
  qed
  from retry abort show ?thesis by (rule conjI)
qed


theorem undecodable_image_aborts_recomposition_witness:
  "jpegDeclared mislabelledPng \<and> \<not> jpgOk sampleEnv (imageBytes mislabelledPng)
   \<and> pngOk sampleEnv (imageBytes mislabelledPng)
   \<and> embedImage sampleEnv mislabelledPng = Some (PngImage [0x89, 0x50, 0x4E, 0x47])
   \<and> truthyStr (fileUrl helloEditor)
   \<and> fetchAndLoad sampleEnv (the (fileUrl helloEditor)) = Inr [a4Page]
   \<and> pageGet [(1, [gifImage])] 1 = Some [gifImage]
   \<and> \<not> pngOk sampleEnv (imageBytes gifImage) \<and> \<not> jpegDeclared gifImage
   \<and> rebuildPdfWithAllContent sampleEnv None (Some [(1, [gifImage])]) helloEditor
       = logError ''Failed to embed all content:'' helloEditor
   \<and> pdfBuffer (rebuildPdfWithAllContent sampleEnv None (Some [(1, [gifImage])]) helloEditor)
       = None"
proof -
  have j: "jpegDeclared mislabelledPng \<and> \<not> jpgOk sampleEnv (imageBytes mislabelledPng)
     \<and> pngOk sampleEnv (imageBytes mislabelledPng)"
    by (simp add: jpegDeclared_def mislabelledPng_def sampleEnv_def)
  have t: "truthyStr (fileUrl helloEditor)"
    by (simp add: helloEditor_def initialEditor_def truthyStr_def)
  have u: "the (fileUrl helloEditor) = ''/uploads/a.pdf''"
    by (simp add: helloEditor_def initialEditor_def)
  have f: "fetchAndLoad sampleEnv (the (fileUrl helloEditor)) = Inr [a4Page]"
    unfolding u by (rule sample_fetchAndLoad)
  have g: "pageGet [(1, [gifImage])] 1 = Some [gifImage]" by (simp add: pageGet_def)
  have n: "\<not> pngOk sampleEnv (imageBytes gifImage) \<and> \<not> jpegDeclared gifImage"
    by (simp add: jpegDeclared_def gifImage_def sampleEnv_def)
  have b: "pdfBuffer helloEditor = None" by (simp add: helloEditor_def initialEditor_def)
  from undecodable_image_aborts_recomposition
         [of mislabelledPng sampleEnv helloEditor "[a4Page]" 1 "[(1, [gifImage])]" "[gifImage]" None]
       j
  have r1: "embedImage sampleEnv mislabelledPng = Some (PngImage [0x89, 0x50, 0x4E, 0x47])"
    by (simp add: mislabelledPng_def)
  from undecodable_image_aborts_recomposition
         [of gifImage sampleEnv helloEditor "[a4Page]" 1 "[(1, [gifImage])]" "[gifImage]" None]
       t f g n
  have r2: "rebuildPdfWithAllContent sampleEnv None (Some [(1, [gifImage])]) helloEditor
       = logError ''Failed to embed all content:'' helloEditor
     \<and> pdfBuffer (rebuildPdfWithAllContent sampleEnv None (Some [(1, [gifImage])]) helloEditor)
       = None"
    by (simp add: b logError_def)
  from j r1 t f g n r2 show ?thesis by blast
qed

text \<open>
  One GIF among the annotations: nothing is saved, although the Hello box alone would
  have been drawn and saved.
\<close>

theorem undecodable_image_aborts_recomposition_counterexample:
  "rebuildPdfWithAllContent sampleEnv None None (helloEditor\<lparr>images := [(1, [gifImage])]\<rparr>)
     = logError ''Failed to embed all content:'' (helloEditor\<lparr>images := [(1, [gifImage])]\<rparr>)
   \<and> pdfBuffer (rebuildPdfWithAllContent sampleEnv None None
        (helloEditor\<lparr>images := [(1, [gifImage])]\<rparr>)) = None
   \<and> history (rebuildPdfWithAllContent sampleEnv None None
        (helloEditor\<lparr>images := [(1, [gifImage])]\<rparr>)) = []
   \<and> pdfBuffer (rebuildPdfWithAllContent sampleEnv None None helloEditor)
       = Some [0x25, 0x50, 0x44, 0x46, 1]"
proof -
  let ?st = "helloEditor\<lparr>images := [(1, [gifImage])]\<rparr>"
  have t: "truthyStr (fileUrl ?st)" "truthyStr (fileUrl helloEditor)"
    by (simp_all add: helloEditor_def initialEditor_def truthyStr_def)
  have u: "the (fileUrl ?st) = ''/uploads/a.pdf''" "the (fileUrl helloEditor) = ''/uploads/a.pdf''"
    by (simp_all add: helloEditor_def initialEditor_def)
  have n: "embedImage sampleEnv gifImage = None"
    by (simp add: embedImage_def embedPng_def gifImage_def sampleEnv_def)
  have d: "drawAllContent sampleEnv ?st (boxes ?st) (images ?st) [a4Page] = Inl EmbedFailed"
    by (rule drawAllContent_fail[where k = 1 and imgs = "[gifImage]" and img = gifImage])
       (simp_all add: n pageGet_def)
  have r: "rebuildPdfWithAllContent sampleEnv None None ?st
             = logError ''Failed to embed all content:'' ?st"
    using t(1) d by (simp add: rebuildPdfWithAllContent_def u sample_fetchAndLoad embedAllContent_def)
  have h: "pdfBuffer (logError ''Failed to embed all content:'' ?st) = None"
    "history (logError ''Failed to embed all content:'' ?st) = []"
    by (simp_all add: logError_def helloEditor_def initialEditor_def)
  have bi: "boxes helloEditor = [(1, [helloBox])]" "images helloEditor = []"
    by (simp_all add: helloEditor_def initialEditor_def)
  have sv: "save sampleEnv [\<lparr>pageHeight = 842,
             content = [DrawText ''Hello'' 50 734 12 Helvetica \<lparr>red = 0, green = 0, blue = 0\<rparr>]\<rparr>]
           = [0x25, 0x50, 0x44, 0x46, 1]"
    by (simp add: sampleEnv_def sampleSave_def)
  have ok: "pdfBuffer (rebuildPdfWithAllContent sampleEnv None None helloEditor)
       = Some [0x25, 0x50, 0x44, 0x46, 1]"
    using rebuild_pdfBuffer[OF t(2), of sampleEnv None None]
    by (simp del: One_nat_def add: u sample_fetchAndLoad bi hello_draw sv)
  from r h ok show ?thesis by simp
qed

section \<open>Verified properties: inline replacement\<close>

lemma itemTextColor_extracted:
  "item_color item = Some c \<Longrightarrow> extractedColor c \<Longrightarrow> itemTextColor item = c"
  by (simp add: itemTextColor_def extractedColor_def normalizeColor_def clamp01_def)

lemma ensurePdfBytes_controls:
  "ensurePdfBytes e st = Inr (b, st1) \<Longrightarrow>
     ensurePdfBytes e (withControls fs fc bt st) = Inr (b, withControls fs fc bt st1)"
  by (auto simp: ensurePdfBytes_def withControls_def Let_def split: option.splits if_splits)

lemma inline_pdfBuffer:
  "editBlock st = Some (item, idx) \<Longrightarrow> ensurePdfBytes e st = Inr (b, st1) \<Longrightarrow>
   load e b = Some doc \<Longrightarrow> doc \<noteq> [] \<Longrightarrow>
     pdfBuffer (snd (handleSaveTextEditInline e newStr st))
       = Some (save e (drawOnPage 0 (replacementText item newStr)
                        (drawOnPage 0 (coverRectangle e item newStr) doc)))"
  by (simp add: handleSaveTextEditInline_def Let_def pdfBuffer_publish extractTextItems_def
      split: option.splits prod.splits)

lemma drawOnPage_twice:
  "doc \<noteq> [] \<Longrightarrow>
     drawOnPage 0 op2 (drawOnPage 0 op1 doc)
       = doc[0 := (doc ! 0)\<lparr>content := content (doc ! 0) @ [op1, op2]\<rparr>]"
  by (cases doc) (simp_all add: drawOnPage_def)

text \<open>
  Claim C9. When an extracted block is being edited and the current bytes load to a
  document with a first page, the saved buffer is that document with two draw calls
  added to page 1: first an opaque white rectangle from \<open>x - 1\<close>, as wide as the larger of
  the measured widths of the old and the new text plus 2, placed and sized from the
  block's measured glyph height \<open>h\<close> (from \<open>0.2 h\<close> below the baseline, \<open>1.1 h\<close> high;
  \<open>0.7\<close> of the font size stands in for a height of 0), then the replacement string at
  the block's own \<open>x\<close>, \<open>y\<close>, in the block's font size, in the Helvetica face of the
  block's bold and italic flags, and in the block's colour (an extracted colour has its
  components between 0 and 1 and is used as it is). The font-size, colour and bold
  controls of the toolbar have no influence on the result.
\<close>

theorem inline_edit_keeps_original_style:
  "editBlock st = Some (item, idx) \<Longrightarrow> ensurePdfBytes e st = Inr (b, st1) \<Longrightarrow>
   load e b = Some doc \<Longrightarrow> doc \<noteq> [] \<Longrightarrow>
     pdfBuffer (snd (handleSaveTextEditInline e newStr st))
       = Some (save e (doc[0 := (doc ! 0)\<lparr>content := content (doc ! 0) @
            [DrawRectangle (item_x item - 1)
               (item_y item
                 - (if item_height item \<noteq> 0 then item_height item else item_fontSize item * 0.7)
                   * 0.2)
               (max (widthOfTextAtSize e (itemFont item) (item_str item) (item_fontSize item))
                    (widthOfTextAtSize e (itemFont item) newStr (item_fontSize item)) + 2)
               ((if item_height item \<noteq> 0 then item_height item else item_fontSize item * 0.7)
                 * 1.1)
               \<lparr>red = 1, green = 1, blue = 1\<rparr> 1,
             DrawText newStr (item_x item) (item_y item) (item_fontSize item) (itemFont item)
               (itemTextColor item)]\<rparr>]))
     \<and> (\<forall>c. item_color item = Some c \<and> extractedColor c \<longrightarrow> itemTextColor item = c)
     \<and> extractedColor \<lparr>red = normalizeColorValue r, green = normalizeColorValue g,
                         blue = normalizeColorValue bl\<rparr>
     \<and> itemFont item
         = (if item_isBold item then (if item_isItalic item then HelveticaBoldOblique
                                       else HelveticaBold)
            else (if item_isItalic item then HelveticaOblique else Helvetica))
     \<and> pdfBuffer (snd (handleSaveTextEditInline e newStr (withControls fs fc bt st)))
         = pdfBuffer (snd (handleSaveTextEditInline e newStr st))"
proof -
  assume eb: "editBlock st = Some (item, idx)" and en: "ensurePdfBytes e st = Inr (b, st1)"
    and ld: "load e b = Some doc" and ne: "doc \<noteq> []"
  have p: "pdfBuffer (snd (handleSaveTextEditInline e newStr st))
       = Some (save e (drawOnPage 0 (replacementText item newStr)
                        (drawOnPage 0 (coverRectangle e item newStr) doc)))"
    using eb en ld ne by (rule inline_pdfBuffer)
  have eb': "editBlock (withControls fs fc bt st) = Some (item, idx)"
    using eb by (simp add: withControls_def)
  have p': "pdfBuffer (snd (handleSaveTextEditInline e newStr (withControls fs fc bt st)))
       = Some (save e (drawOnPage 0 (replacementText item newStr)
                        (drawOnPage 0 (coverRectangle e item newStr) doc)))"
    using eb' ensurePdfBytes_controls[OF en] ld ne by (rule inline_pdfBuffer)
  have ops: "drawOnPage 0 (replacementText item newStr)
                        (drawOnPage 0 (coverRectangle e item newStr) doc)
      = doc[0 := (doc ! 0)\<lparr>content := content (doc ! 0) @
            [DrawRectangle (item_x item - 1)
               (item_y item
                 - (if item_height item \<noteq> 0 then item_height item else item_fontSize item * 0.7)
                   * 0.2)
               (max (widthOfTextAtSize e (itemFont item) (item_str item) (item_fontSize item))
                    (widthOfTextAtSize e (itemFont item) newStr (item_fontSize item)) + 2)
               ((if item_height item \<noteq> 0 then item_height item else item_fontSize item * 0.7)
                 * 1.1)
               \<lparr>red = 1, green = 1, blue = 1\<rparr> 1,
             DrawText newStr (item_x item) (item_y item) (item_fontSize item) (itemFont item)
               (itemTextColor item)]\<rparr>]"
    unfolding drawOnPage_twice[OF ne]
    by (simp add: coverRectangle_def replacementText_def numOr_def Let_def)
  have col: "\<forall>c. item_color item = Some c \<and> extractedColor c \<longrightarrow> itemTextColor item = c"
    using itemTextColor_extracted by blast
  have fnt: "itemFont item
         = (if item_isBold item then (if item_isItalic item then HelveticaBoldOblique
                                       else HelveticaBold)
            else (if item_isItalic item then HelveticaOblique else Helvetica))"
    by (simp add: itemFont_def)
  have ext: "extractedColor \<lparr>red = normalizeColorValue r, green = normalizeColorValue g,
                         blue = normalizeColorValue bl\<rparr>"
    by (simp add: extractedColor_def normalizeColorValue_def)
  from p p' ops col ext fnt show ?thesis by simp
qed


theorem inline_edit_keeps_original_style_witness:
  "editBlock inlineEditor = Some (totalItem, 0)
   \<and> ensurePdfBytes sampleEnv inlineEditor
       = Inr ([0x25, 0x50, 0x44, 0x46, 0xA4, 0, 0], inlineEditor)
   \<and> load sampleEnv [0x25, 0x50, 0x44, 0x46, 0xA4, 0, 0]
       = Some [a4Page, \<lparr>pageHeight = 792, content = []\<rparr>, \<lparr>pageHeight = 792, content = []\<rparr>]
   \<and> pdfBuffer (snd (handleSaveTextEditInline sampleEnv ''Sum'' inlineEditor))
       = Some (save sampleEnv
           [\<lparr>pageHeight = 842,
             content = [DrawRectangle 71 698.4 27 8.8 \<lparr>red = 1, green = 1, blue = 1\<rparr> 1,
                        DrawText ''Sum'' 72 700 10 HelveticaBold
                          \<lparr>red = 0.2, green = 0.4, blue = 0.6\<rparr>]\<rparr>,
            \<lparr>pageHeight = 792, content = []\<rparr>, \<lparr>pageHeight = 792, content = []\<rparr>])
   \<and> pdfBuffer (snd (handleSaveTextEditInline sampleEnv ''Sum''
         (withControls 48 ''#ff0000'' False inlineEditor)))
       = pdfBuffer (snd (handleSaveTextEditInline sampleEnv ''Sum'' inlineEditor))"
proof -
  let ?b = "[0x25, 0x50, 0x44, 0x46, 0xA4, 0, 0] :: bytes"
  let ?doc = "[a4Page, \<lparr>pageHeight = 792, content = []\<rparr>, \<lparr>pageHeight = 792, content = []\<rparr>]"
  have eb: "editBlock inlineEditor = Some (totalItem, 0)" by (simp add: inlineEditor_def)
  have en: "ensurePdfBytes sampleEnv inlineEditor = Inr (?b, inlineEditor)"
    by (simp add: ensurePdfBytes_def inlineEditor_def)
  have ld: "load sampleEnv ?b = Some ?doc"
    by (simp add: sampleEnv_def sampleLoad_def a4Page_def)
  have ne: "?doc \<noteq> []" by simp
  have col: "extractedColor \<lparr>red = 0.2, green = 0.4, blue = 0.6\<rparr>"
    by (simp add: extractedColor_def)
  have ic: "item_color totalItem = Some \<lparr>red = 0.2, green = 0.4, blue = 0.6\<rparr>"
    by (simp add: totalItem_def)
  note th = inline_edit_keeps_original_style
              [OF eb en ld ne, where newStr = "''Sum''" and fs = 48 and fc = "''#ff0000''"
                 and bt = False and r = "0.2" and g = "0.4" and bl = "0.6"]
  from th col ic have c: "itemTextColor totalItem = \<lparr>red = 0.2, green = 0.4, blue = 0.6\<rparr>"
    by blast
  from th have f: "itemFont totalItem = HelveticaBold" by (simp add: totalItem_def)
  from th have indep: "pdfBuffer (snd (handleSaveTextEditInline sampleEnv ''Sum''
         (withControls 48 ''#ff0000'' False inlineEditor)))
       = pdfBuffer (snd (handleSaveTextEditInline sampleEnv ''Sum'' inlineEditor))"
    by (elim conjE)
  from th have "pdfBuffer (snd (handleSaveTextEditInline sampleEnv ''Sum'' inlineEditor))
       = Some (save sampleEnv
           [\<lparr>pageHeight = 842,
             content = [DrawRectangle 71 698.4 27 8.8 \<lparr>red = 1, green = 1, blue = 1\<rparr> 1,
                        DrawText ''Sum'' 72 700 10 HelveticaBold
                          \<lparr>red = 0.2, green = 0.4, blue = 0.6\<rparr>]\<rparr>,
            \<lparr>pageHeight = 792, content = []\<rparr>, \<lparr>pageHeight = 792, content = []\<rparr>])"
    by (simp add: c f) (simp add: totalItem_def a4Page_def sampleEnv_def)
  with eb en ld indep show ?thesis by simp
qed


end
